theory Spec2Isabelle
  imports Complex_Main "HOL-Library.Multiset" "HOL-Library.Product_Lexorder"
begin

section \<open>Numbers\<close>

text \<open>
  A JavaScript \<^verbatim>\<open>number\<close> is modelled as an exact real or one of the three special
  values; \<^verbatim>\<open>number | null\<close> is \<open>number option\<close>. The special values appear wherever
  the source tests for them. Arithmetic on finite values is exact; the one computation
  whose outcome turns on the rounding of IEEE doubles, the Scale Builder, is not written
  in it but taken as a parameter (see \<open>yScale\<close>).
\<close>

datatype number = Num real | NaN | Infinity | NegInfinity

text \<open>\<^verbatim>\<open>Number.isFinite(v)\<close> for \<^verbatim>\<open>v: number | null\<close>.\<close>

fun Number_isFinite :: "number option \<Rightarrow> bool" where
  "Number_isFinite (Some (Num r)) = True"
| "Number_isFinite _ = False"

text \<open>
  \<^verbatim>\<open>Number(x.toFixed(d))\<close> on a finite \<open>x\<close>: below \<open>10^21\<close> in magnitude the digits
  are those of the integer \<open>n\<close> nearest to \<open>|x| * 10^d\<close> (the larger one at a tie), with the
  sign of \<open>x\<close>; from \<open>10^21\<close> on \<^verbatim>\<open>toFixed\<close> prints the number itself.
\<close>

definition toFixed :: "nat \<Rightarrow> real \<Rightarrow> real" where
  "toFixed d x =
     (if 10 ^ 21 \<le> \<bar>x\<bar> then x
      else sgn x * (of_int \<lfloor>\<bar>x\<bar> * 10 ^ d + 1 / 2\<rfloor> / 10 ^ d))"

section \<open>Axis scale\<close>

definition THROUGHPUT_AXIS_MAX_MBPS :: real where
  "THROUGHPUT_AXIS_MAX_MBPS = 120"

definition THROUGHPUT_AXIS_TICK_STEP_MBPS :: real where
  "THROUGHPUT_AXIS_TICK_STEP_MBPS = 40"

definition THROUGHPUT_SUM_SERIES_ID :: int where
  "THROUGHPUT_SUM_SERIES_ID = - 1"

record scale =
  scaleMin :: real
  scaleMax :: real
  ticks :: "real list"

text \<open>
  The y-axis scale of a chart. \<open>yValues\<close> are the y-values of all normalized points.
  \<^verbatim>\<open>Array.from({length: n}, (_, index) => ...)\<close> is a map over the indices below \<open>n\<close>.
  With no y-values \<^verbatim>\<open>Math.max()\<close> is \<open>-Infinity\<close> and \<^verbatim>\<open>Math.min()\<close> is
  \<open>Infinity\<close>, so that \<open>yPadding\<close> and the upper bound both come out as \<open>0.001\<close>.

  The parameter \<open>buildNiceYTicks\<close> is the source's function of that name, applied to its
  first two arguments with the default count, as the host computes it: in IEEE doubles,
  with the host's \<^verbatim>\<open>Math.log10\<close> and \<^verbatim>\<open>**\<close>, where a step that a sum absorbs keeps
  the loop from ending. Its result is \<open>None\<close> when it does not return. What is proved of
  a chart below holds for every such function.
\<close>

definition yScale :: "(number \<Rightarrow> number \<Rightarrow> scale option) \<Rightarrow> string \<Rightarrow> real list \<Rightarrow> scale option" where
  "yScale buildNiceYTicks metricId yValues =
     (if metricId = ''mbps''
      then Some \<lparr>scaleMin = 0, scaleMax = THROUGHPUT_AXIS_MAX_MBPS,
                 ticks = map (\<lambda>index. real index * THROUGHPUT_AXIS_TICK_STEP_MBPS)
                   [0 ..< nat \<lfloor>THROUGHPUT_AXIS_MAX_MBPS / THROUGHPUT_AXIS_TICK_STEP_MBPS + 1\<rfloor>]\<rparr>
      else
        (case yValues of
           [] \<Rightarrow> buildNiceYTicks (Num 0) (Num 0.001)
         | v # vs \<Rightarrow>
             let yMinRaw = fold min vs v;
                 yMaxRaw = fold max vs v;
                 yPadding = max ((yMaxRaw - yMinRaw) * 0.12) 0.001
             in buildNiceYTicks (Num 0) (Num (max (yMaxRaw + yPadding) 0.001))))"

section \<open>Data model\<close>

text \<open>\<^verbatim>\<open>EmulatedPerSecondStat\<close>; the field \<^verbatim>\<open>id\<close> is \<open>statId\<close> here.\<close>

record stat =
  statId :: int
  emulatedRunId :: int
  snapshotIndex :: "number option"
  elapsedSeconds :: "number option"
  megabitsPerSecond :: "number option"
  roundTripTimeMs :: "number option"
  bottleneckQueuingDelayMs :: "number option"
  inFlightPackets :: "number option"
  congestionWindowBytes :: "number option"

text \<open>\<^verbatim>\<open>ChartSeries\<close>; the field \<^verbatim>\<open>data\<close> is \<open>seriesData\<close> here.\<close>

record chartSeries =
  runId :: int
  shortLabel :: string
  label :: string
  clientSummary :: string
  color :: string
  seriesData :: "stat list"

record normalizedPoint =
  xValue :: real
  yValue :: real

text \<open>A projected point; the pixel fields \<^verbatim>\<open>x\<close> and \<^verbatim>\<open>y\<close> are \<open>svgX\<close> and \<open>svgY\<close>.\<close>

record svgPoint = normalizedPoint +
  svgX :: real
  svgY :: real

record normalizedRun = chartSeries +
  points :: "normalizedPoint list"

text \<open>
  An entry of \<^verbatim>\<open>interactiveSeriesForRender\<close>. Of the rendered series only the fields
  that are read after projection are kept; the copied \<^verbatim>\<open>points\<close> and the \<^verbatim>\<open>path\<close>
  string are left out.
\<close>

record renderedSeries = chartSeries +
  svgPoints :: "svgPoint list"

section \<open>Series Normalizer\<close>

text \<open>
  The callback of the inner \<^verbatim>\<open>map\<close>: \<^verbatim>\<open>elapsedSeconds ?? snapshotIndex ?? index\<close>
  for x, the accessor for y, \<open>None\<close> (\<^verbatim>\<open>null\<close>) unless \<^verbatim>\<open>Number.isFinite\<close> holds
  of both.
\<close>

definition normalizePoint :: "(stat \<Rightarrow> number option) \<Rightarrow> stat \<Rightarrow> nat \<Rightarrow> normalizedPoint option" where
  "normalizePoint accessor point index =
     (let xv = (case elapsedSeconds point of
                  Some e \<Rightarrow> e
                | None \<Rightarrow> (case snapshotIndex point of
                             Some i \<Rightarrow> i
                           | None \<Rightarrow> Num (real index)));
          yv = accessor point
      in if \<not> Number_isFinite (Some xv) \<or> \<not> Number_isFinite yv then None
         else (case (xv, yv) of
                 (Num xr, Some (Num yr)) \<Rightarrow> Some \<lparr>xValue = xr, yValue = yr\<rparr>
               | _ \<Rightarrow> None))"

text \<open>\<^verbatim>\<open>.filter((point) => point !== null)\<close>\<close>

fun filterNonNull :: "'a option list \<Rightarrow> 'a list" where
  "filterNonNull [] = []"
| "filterNonNull (None # xs) = filterNonNull xs"
| "filterNonNull (Some x # xs) = x # filterNonNull xs"

definition normalizeRun :: "(stat \<Rightarrow> number option) \<Rightarrow> chartSeries \<Rightarrow> normalizedRun" where
  "normalizeRun accessor runSeries =
     \<lparr>runId = runId runSeries, shortLabel = shortLabel runSeries, label = label runSeries,
      clientSummary = clientSummary runSeries, color = color runSeries,
      seriesData = seriesData runSeries,
      points = filterNonNull
        (map (\<lambda>(index, point). normalizePoint accessor point index)
           (enumerate 0 (seriesData runSeries)))\<rparr>"

definition normalizedSeries :: "(stat \<Rightarrow> number option) \<Rightarrow> chartSeries list \<Rightarrow> normalizedRun list" where
  "normalizedSeries accessor series =
     filter (\<lambda>runSeries. length (points runSeries) > 0) (map (normalizeRun accessor) series)"

section \<open>Coordinate Projector\<close>

datatype chartSize = Default | Expanded

definition isExpanded :: "chartSize \<Rightarrow> bool" where
  "isExpanded sz = (sz = Expanded)"

definition chartWidth :: "chartSize \<Rightarrow> real" where
  "chartWidth sz = (if isExpanded sz then 1200 else 460)"

definition chartHeight :: "chartSize \<Rightarrow> real" where
  "chartHeight sz = (if isExpanded sz then 620 else 220)"

definition leftPadding :: "chartSize \<Rightarrow> real" where
  "leftPadding sz = (if isExpanded sz then 78 else 56)"

definition rightPadding :: "chartSize \<Rightarrow> real" where
  "rightPadding sz = (if isExpanded sz then 28 else 18)"

definition topPadding :: "chartSize \<Rightarrow> real" where
  "topPadding sz = (if isExpanded sz then 26 else 18)"

definition bottomPadding :: "chartSize \<Rightarrow> real" where
  "bottomPadding sz = (if isExpanded sz then 94 else 52)"

definition plotWidth :: "chartSize \<Rightarrow> real" where
  "plotWidth sz = chartWidth sz - leftPadding sz - rightPadding sz"

definition plotHeight :: "chartSize \<Rightarrow> real" where
  "plotHeight sz = chartHeight sz - topPadding sz - bottomPadding sz"

definition xMin :: real where
  "xMin = 0"

definition xDenominator :: "real \<Rightarrow> real" where
  "xDenominator xMx = (if xMx = xMin then 1 else xMx - xMin)"

definition yDenominator :: "real \<Rightarrow> real \<Rightarrow> real" where
  "yDenominator yMn yMx = (if yMx = yMn then 1 else yMx - yMn)"

text \<open>
  The callback that turns a normalized point into an \<^verbatim>\<open>svgPoints\<close> entry; the same code
  serves the per-run series and the throughput sum.
\<close>

definition projectPoint :: "chartSize \<Rightarrow> real \<Rightarrow> real \<Rightarrow> real \<Rightarrow> normalizedPoint \<Rightarrow> svgPoint" where
  "projectPoint sz xMx yMn yMx point =
     (let boundedXValue = max xMin (min xMx (xValue point));
          boundedYValue = max yMn (min yMx (yValue point))
      in \<lparr>xValue = xValue point, yValue = yValue point,
          svgX = leftPadding sz + ((boundedXValue - xMin) / xDenominator xMx) * plotWidth sz,
          svgY = chartHeight sz - bottomPadding sz
                 - ((boundedYValue - yMn) / yDenominator yMn yMx) * plotHeight sz\<rparr>)"

definition renderRun :: "chartSize \<Rightarrow> real \<Rightarrow> real \<Rightarrow> real \<Rightarrow> normalizedRun \<Rightarrow> renderedSeries" where
  "renderRun sz xMx yMn yMx runSeries =
     \<lparr>runId = runId runSeries, shortLabel = shortLabel runSeries, label = label runSeries,
      clientSummary = clientSummary runSeries, color = color runSeries,
      seriesData = seriesData runSeries,
      svgPoints = map (projectPoint sz xMx yMn yMx) (points runSeries)\<rparr>"

section \<open>Aggregate Series Synthesizer\<close>

text \<open>
  A \<^verbatim>\<open>Map\<close> keeps its entries in insertion order, so it is a list of pairs with distinct
  keys: \<^verbatim>\<open>set\<close> replaces the value of a key already present where it stands and appends
  a new key at the end; \<^verbatim>\<open>get\<close> is \<open>map_of\<close>.
\<close>

fun mapSet :: "'k \<Rightarrow> 'v \<Rightarrow> ('k \<times> 'v) list \<Rightarrow> ('k \<times> 'v) list" where
  "mapSet k v [] = [(k, v)]"
| "mapSet k v ((k', v') # m) = (if k' = k then (k, v) # m else (k', v') # mapSet k v m)"

definition addToSum :: "normalizedPoint \<Rightarrow> (real \<times> real) list \<Rightarrow> (real \<times> real) list" where
  "addToSum point sumByX =
     (let roundedX = toFixed 3 (xValue point);
          current = (case map_of sumByX roundedX of Some c \<Rightarrow> c | None \<Rightarrow> 0)
      in mapSet roundedX (current + yValue point) sumByX)"

definition sumByX :: "normalizedRun list \<Rightarrow> (real \<times> real) list" where
  "sumByX ns = fold (\<lambda>runSeries m. fold addToSum (points runSeries) m) ns []"

text \<open>
  The \<^verbatim>\<open>points\<close> of the sum series. The comparator \<^verbatim>\<open>a.xValue - b.xValue\<close> orders by
  x ascending, and \<^verbatim>\<open>Array.prototype.sort\<close> is stable, as insertion sort is.
\<close>

definition throughputSumPoints :: "normalizedRun list \<Rightarrow> normalizedPoint list" where
  "throughputSumPoints ns =
     sort_key xValue (map (\<lambda>(xv, yv). \<lparr>xValue = xv, yValue = yv\<rparr>) (sumByX ns))"

definition throughputSumForRender ::
    "chartSize \<Rightarrow> string \<Rightarrow> real \<Rightarrow> real \<Rightarrow> real \<Rightarrow> normalizedRun list \<Rightarrow> renderedSeries option" where
  "throughputSumForRender sz metricId xMx yMn yMx ns =
     (if metricId = ''mbps''
      then (let pts = throughputSumPoints ns
            in if length pts = 0 then None
               else Some \<lparr>runId = THROUGHPUT_SUM_SERIES_ID, shortLabel = ''sum Mbps'',
                          label = ''sum Mbps'', clientSummary = ''sum Mbps'',
                          color = ''#eab308'', seriesData = [],
                          svgPoints = map (projectPoint sz xMx yMn yMx) pts\<rparr>)
      else None)"

section \<open>Chart layout\<close>

datatype error = TypeError | RangeError

text \<open>
  What one render pass of \<^verbatim>\<open>MetricChart\<close> computes before it draws: the domain, the
  scale, the ticks and the series the handlers close over.
\<close>

record chart =
  chartSizeOf :: chartSize
  xMax :: real
  yMin :: real
  yMax :: real
  yTicks :: "real list"
  xTicks :: "real list"
  seriesForRender :: "renderedSeries list"
  throughputSum :: "renderedSeries option"

datatype chartView = NoPointsAvailable | Chart chart

definition interactiveSeriesForRender :: "chart \<Rightarrow> renderedSeries list" where
  "interactiveSeriesForRender c =
     (case throughputSum c of
        Some s \<Rightarrow> seriesForRender c @ [s]
      | None \<Rightarrow> seriesForRender c)"

text \<open>The \<^verbatim>\<open>flatMap\<close>s that collect the x-values and the y-values of all points.\<close>

definition allXValues :: "normalizedRun list \<Rightarrow> real list" where
  "allXValues ns = concat (map (\<lambda>runSeries. map xValue (points runSeries)) ns)"

definition allYValues :: "normalizedRun list \<Rightarrow> real list" where
  "allYValues ns = concat (map (\<lambda>runSeries. map yValue (points runSeries)) ns)"

text \<open>
  The x ticks. \<^verbatim>\<open>Array.from({length: n}, ...)\<close> creates an array of length \<open>n\<close>, which
  throws a RangeError when \<open>n\<close> exceeds \<open>2^32 - 1\<close>; \<^verbatim>\<open>Math.round\<close> is \<open>round\<close>.
\<close>

definition xTicksFor :: "real \<Rightarrow> error + real list" where
  "xTicksFor xMx =
     (let xTickStart = \<lceil>xMin\<rceil>;
          xTickEnd = \<lfloor>xMx\<rfloor>
      in if xTickStart \<le> xTickEnd
         then (if 2 ^ 32 - 1 < xTickEnd - xTickStart + 1 then Inl RangeError
               else Inr (map (\<lambda>index. of_int xTickStart + real index)
                           [0 ..< nat (xTickEnd - xTickStart + 1)]))
         else Inr [of_int (round xMin)])"

text \<open>
  One render pass. The outer \<open>None\<close> stands for a pass that does not return (the Scale
  Builder's loop), \<open>Inl\<close> for one that throws; \<^verbatim>\<open>Math.max(...xValues, 0)\<close> is the fold
  of \<open>max\<close> from 0. The scale is computed before the x ticks, as in the source.
\<close>

definition MetricChart ::
    "(number \<Rightarrow> number \<Rightarrow> scale option) \<Rightarrow> chartSize \<Rightarrow> string \<Rightarrow> (stat \<Rightarrow> number option)
       \<Rightarrow> chartSeries list \<Rightarrow> (error + chartView) option" where
  "MetricChart buildNiceYTicks sz metricId accessor series =
     (let ns = normalizedSeries accessor series
      in if length ns = 0 then Some (Inr NoPointsAvailable)
         else
           (let xMx = fold max (allXValues ns) 0
            in case yScale buildNiceYTicks metricId (allYValues ns) of
                 None \<Rightarrow> None
               | Some sc \<Rightarrow>
                   (case xTicksFor xMx of
                      Inl e \<Rightarrow> Some (Inl e)
                    | Inr xt \<Rightarrow>
                        Some (Inr (Chart
                          \<lparr>chartSizeOf = sz, xMax = xMx, yMin = scaleMin sc, yMax = scaleMax sc,
                           yTicks = ticks sc, xTicks = xt,
                           seriesForRender = map (renderRun sz xMx (scaleMin sc) (scaleMax sc)) ns,
                           throughputSum =
                             throughputSumForRender sz metricId xMx (scaleMin sc) (scaleMax sc)
                               ns\<rparr>)))))"

section \<open>Hit-Testing and Slice Engine\<close>

text \<open>
  \<^verbatim>\<open>Array.prototype.reduce\<close> without an initial value: the first element starts the
  accumulator, and an empty array throws.
\<close>

fun reduce :: "('a \<Rightarrow> 'a \<Rightarrow> 'a) \<Rightarrow> 'a list \<Rightarrow> error + 'a" where
  "reduce f [] = Inl TypeError"
| "reduce f (x # xs) = Inr (foldl f x xs)"

text \<open>A \<^verbatim>\<open>map\<close> whose callback may throw: the first exception ends it.\<close>

fun mapThrowing :: "('a \<Rightarrow> error + 'b) \<Rightarrow> 'a list \<Rightarrow> error + 'b list" where
  "mapThrowing f [] = Inr []"
| "mapThrowing f (x # xs) =
     (case f x of
        Inl e \<Rightarrow> Inl e
      | Inr y \<Rightarrow> (case mapThrowing f xs of Inl e \<Rightarrow> Inl e | Inr ys \<Rightarrow> Inr (y # ys)))"

text \<open>The SVG element, as far as the handlers read it: its bounding client rectangle.\<close>

record domRect =
  rectLeft :: real
  rectTop :: real
  rectWidth :: real
  rectHeight :: real

text \<open>\<^verbatim>\<open>HoveredChartPoint\<close>, \<^verbatim>\<open>HoveredSliceValue\<close> and \<^verbatim>\<open>HoveredSlice\<close>, with prefixed
  field names where the source reuses a name.\<close>

record hoveredChartPoint =
  hoverRunId :: int
  runSummary :: string
  hoverColor :: string
  hoverX :: real
  hoverY :: real
  hoverXValue :: real
  hoverYValue :: real

record hoveredSliceValue =
  sliceRunId :: int
  sliceShortLabel :: string
  sliceColor :: string
  sliceYValue :: real
  pointX :: real
  pointY :: real

record sliceReadout =
  sliceX :: real
  sliceXValue :: real
  sliceValues :: "hoveredSliceValue list"

definition toHoveredPoint :: "renderedSeries \<Rightarrow> svgPoint \<Rightarrow> hoveredChartPoint" where
  "toHoveredPoint runSeries point =
     \<lparr>hoverRunId = runId runSeries, runSummary = clientSummary runSeries,
      hoverColor = color runSeries, hoverX = svgX point, hoverY = svgY point,
      hoverXValue = xValue point, hoverYValue = yValue point\<rparr>"

definition getClosestPointFromMouse ::
    "chartSize \<Rightarrow> renderedSeries \<Rightarrow> real \<Rightarrow> domRect option \<Rightarrow> svgPoint option" where
  "getClosestPointFromMouse sz runSeries clientX svgElement =
     (case svgElement of
        None \<Rightarrow> None
      | Some rect \<Rightarrow>
          if length (svgPoints runSeries) = 0 then None
          else if rectWidth rect \<le> 0 then None
          else
            (let relativeX = ((clientX - rectLeft rect) / rectWidth rect) * chartWidth sz
             in case reduce (\<lambda>closest point.
                       if \<bar>svgX point - relativeX\<bar> < \<bar>svgX closest - relativeX\<bar>
                       then point else closest) (svgPoints runSeries) of
                  Inl e \<Rightarrow> None
                | Inr p \<Rightarrow> Some p))"

definition nearestPoint :: "real \<Rightarrow> renderedSeries \<Rightarrow> error + svgPoint" where
  "nearestPoint xv runSeries =
     reduce (\<lambda>closest point.
        if \<bar>xValue point - xv\<bar> < \<bar>xValue closest - xv\<bar> then point else closest)
       (svgPoints runSeries)"

definition sliceValueOf :: "real \<Rightarrow> renderedSeries \<Rightarrow> error + hoveredSliceValue" where
  "sliceValueOf xv runSeries =
     (case nearestPoint xv runSeries of
        Inl e \<Rightarrow> Inl e
      | Inr p \<Rightarrow>
          Inr \<lparr>sliceRunId = runId runSeries, sliceShortLabel = shortLabel runSeries,
               sliceColor = color runSeries, sliceYValue = yValue p,
               pointX = svgX p, pointY = svgY p\<rparr>)"

definition getHoveredSliceFromMouse ::
    "chart \<Rightarrow> real \<Rightarrow> real \<Rightarrow> domRect option \<Rightarrow> error + sliceReadout option" where
  "getHoveredSliceFromMouse c clientX clientY svgElement =
     (case svgElement of
        None \<Rightarrow> Inr None
      | Some rect \<Rightarrow>
          if length (interactiveSeriesForRender c) = 0 then Inr None
          else if rectWidth rect \<le> 0 \<or> rectHeight rect \<le> 0 then Inr None
          else
            (let sz = chartSizeOf c;
                 relativeX = ((clientX - rectLeft rect) / rectWidth rect) * chartWidth sz;
                 relativeY = ((clientY - rectTop rect) / rectHeight rect) * chartHeight sz;
                 minX = leftPadding sz;
                 maxX = chartWidth sz - rightPadding sz;
                 minY = topPadding sz;
                 maxY = chartHeight sz - bottomPadding sz
             in if relativeX < minX \<or> relativeX > maxX \<or> relativeY < minY \<or> relativeY > maxY
                then Inr None
                else
                  (let boundedX = max minX (min maxX relativeX);
                       xv = xMin + ((boundedX - minX) / max (plotWidth sz) 1) * xDenominator (xMax c)
                   in case mapThrowing (sliceValueOf xv) (interactiveSeriesForRender c) of
                        Inl e \<Rightarrow> Inl e
                      | Inr vs \<Rightarrow>
                          Inr (Some \<lparr>sliceX = boundedX, sliceXValue = xv, sliceValues = vs\<rparr>))))"

section \<open>Hover and pin state\<close>

record chartState =
  hoveredRunId :: "int option"
  hoveredPoint :: "hoveredChartPoint option"
  hoveredSlice :: "sliceReadout option"
  pinnedRunId :: "int option"
  pinnedPoint :: "hoveredChartPoint option"

definition clearPinnedSelection :: "chartState \<Rightarrow> chartState" where
  "clearPinnedSelection s =
     s\<lparr>pinnedRunId := None, pinnedPoint := None, hoveredRunId := None,
       hoveredPoint := None, hoveredSlice := None\<rparr>"

text \<open>
  The effect registers \<^verbatim>\<open>clearPinnedSelection\<close> as a capturing \<^verbatim>\<open>pointerdown\<close> listener
  on the document exactly while \<^verbatim>\<open>pinnedRunId\<close> is not null.
\<close>

definition documentPointerDown :: "chartState \<Rightarrow> chartState" where
  "documentPointerDown s = (if pinnedRunId s = None then s else clearPinnedSelection s)"

definition setHoveredPointForRun :: "renderedSeries \<Rightarrow> svgPoint \<Rightarrow> chartState \<Rightarrow> chartState" where
  "setHoveredPointForRun runSeries point s =
     (case hoveredPoint s of
        Some current \<Rightarrow>
          if hoverRunId current = runId runSeries \<and> hoverXValue current = xValue point
             \<and> hoverYValue current = yValue point
          then s
          else s\<lparr>hoveredPoint := Some (toHoveredPoint runSeries point)\<rparr>
      | None \<Rightarrow> s\<lparr>hoveredPoint := Some (toHoveredPoint runSeries point)\<rparr>)"

definition pathMouseEnter :: "renderedSeries \<Rightarrow> chartState \<Rightarrow> chartState" where
  "pathMouseEnter runSeries s =
     (if pinnedRunId s \<noteq> None
      then (if pinnedRunId s = Some (runId runSeries)
            then s\<lparr>hoveredRunId := Some (runId runSeries)\<rparr> else s)
      else s\<lparr>hoveredRunId := Some (runId runSeries)\<rparr>)"

definition pathMouseMove ::
    "chartSize \<Rightarrow> renderedSeries \<Rightarrow> real \<Rightarrow> domRect option \<Rightarrow> chartState \<Rightarrow> chartState" where
  "pathMouseMove sz runSeries clientX svgElement s =
     (if pinnedRunId s \<noteq> None
      then (if pinnedRunId s \<noteq> Some (runId runSeries) then s
            else (case getClosestPointFromMouse sz runSeries clientX svgElement of
                    Some closestPoint \<Rightarrow>
                      (let pinned = toHoveredPoint runSeries closestPoint
                       in s\<lparr>pinnedPoint := Some pinned, hoveredRunId := Some (runId runSeries),
                            hoveredPoint := Some pinned\<rparr>)
                  | None \<Rightarrow> s))
      else (let s1 = s\<lparr>hoveredRunId := Some (runId runSeries)\<rparr>
            in case getClosestPointFromMouse sz runSeries clientX svgElement of
                 Some closestPoint \<Rightarrow> setHoveredPointForRun runSeries closestPoint s1
               | None \<Rightarrow> s1))"

definition pathMouseLeave :: "chartState \<Rightarrow> chartState" where
  "pathMouseLeave s = s\<lparr>hoveredRunId := None, hoveredPoint := None\<rparr>"

definition pathClick ::
    "chartSize \<Rightarrow> renderedSeries \<Rightarrow> real \<Rightarrow> domRect option \<Rightarrow> chartState \<Rightarrow> chartState" where
  "pathClick sz runSeries clientX svgElement s =
     (if pinnedRunId s \<noteq> None then s
      else (let s1 = s\<lparr>pinnedRunId := Some (runId runSeries),
                        hoveredRunId := Some (runId runSeries)\<rparr>
            in case getClosestPointFromMouse sz runSeries clientX svgElement of
                 Some closestPoint \<Rightarrow>
                   (let pinned = toHoveredPoint runSeries closestPoint
                    in s1\<lparr>pinnedPoint := Some pinned, hoveredPoint := Some pinned\<rparr>)
               | None \<Rightarrow> s1\<lparr>pinnedPoint := None\<rparr>))"

text \<open>The marker's \<^verbatim>\<open>onMouseEnter\<close> and \<^verbatim>\<open>onMouseMove\<close> have the same body.\<close>

definition markerMouseOver :: "renderedSeries \<Rightarrow> svgPoint \<Rightarrow> chartState \<Rightarrow> chartState" where
  "markerMouseOver runSeries point s =
     (if pinnedRunId s \<noteq> None
      then (if pinnedRunId s = Some (runId runSeries)
            then (let pinned = toHoveredPoint runSeries point
                  in s\<lparr>pinnedPoint := Some pinned, hoveredRunId := Some (runId runSeries),
                       hoveredPoint := Some pinned\<rparr>)
            else s)
      else setHoveredPointForRun runSeries point (s\<lparr>hoveredRunId := Some (runId runSeries)\<rparr>))"

definition markerMouseLeave :: "chartState \<Rightarrow> chartState" where
  "markerMouseLeave s = s\<lparr>hoveredPoint := None\<rparr>"

definition markerClick :: "renderedSeries \<Rightarrow> svgPoint \<Rightarrow> chartState \<Rightarrow> chartState" where
  "markerClick runSeries point s =
     (if pinnedRunId s \<noteq> None then s
      else (let pinned = toHoveredPoint runSeries point
            in s\<lparr>pinnedRunId := Some (runId runSeries), pinnedPoint := Some pinned,
                 hoveredRunId := Some (runId runSeries), hoveredPoint := Some pinned\<rparr>))"

definition legendMouseEnter :: "renderedSeries \<Rightarrow> chartState \<Rightarrow> chartState" where
  "legendMouseEnter runSeries s =
     (if pinnedRunId s \<noteq> None then s
      else s\<lparr>hoveredRunId := Some (runId runSeries), hoveredPoint := None\<rparr>)"

definition legendMouseLeave :: "chartState \<Rightarrow> chartState" where
  "legendMouseLeave s =
     (if pinnedRunId s \<noteq> None then s
      else s\<lparr>hoveredRunId := None, hoveredPoint := None\<rparr>)"

definition legendClick :: "renderedSeries \<Rightarrow> chartState \<Rightarrow> chartState" where
  "legendClick runSeries s =
     (if pinnedRunId s \<noteq> None then s
      else s\<lparr>pinnedRunId := Some (runId runSeries), pinnedPoint := None,
             hoveredRunId := Some (runId runSeries), hoveredPoint := None\<rparr>)"

text \<open>When the slice computation throws, the handler ends before it sets any state.\<close>

definition svgMouseMove :: "chart \<Rightarrow> real \<Rightarrow> real \<Rightarrow> domRect option \<Rightarrow> chartState \<Rightarrow> chartState" where
  "svgMouseMove c clientX clientY svgElement s =
     (case getHoveredSliceFromMouse c clientX clientY svgElement of
        Inl e \<Rightarrow> s
      | Inr nextSlice \<Rightarrow> s\<lparr>hoveredSlice := nextSlice\<rparr>)"

definition svgMouseLeave :: "chartState \<Rightarrow> chartState" where
  "svgMouseLeave s = s\<lparr>hoveredSlice := None\<rparr>"

definition cardMouseLeave :: "chartState \<Rightarrow> chartState" where
  "cardMouseLeave s = s\<lparr>hoveredRunId := None, hoveredPoint := None, hoveredSlice := None\<rparr>"

datatype event =
    DocumentPointerDown
  | PathMouseEnter renderedSeries
  | PathMouseMove renderedSeries real "domRect option"
  | PathMouseLeave
  | PathClick renderedSeries real "domRect option"
  | MarkerMouseEnter renderedSeries svgPoint
  | MarkerMouseMove renderedSeries svgPoint
  | MarkerMouseLeave
  | MarkerClick renderedSeries svgPoint
  | LegendMouseEnter renderedSeries
  | LegendMouseLeave
  | LegendClick renderedSeries
  | SvgMouseMove real real "domRect option"
  | SvgMouseLeave
  | CardMouseLeave

fun handleEvent :: "chart \<Rightarrow> event \<Rightarrow> chartState \<Rightarrow> chartState" where
  "handleEvent c DocumentPointerDown s = documentPointerDown s"
| "handleEvent c (PathMouseEnter rs) s = pathMouseEnter rs s"
| "handleEvent c (PathMouseMove rs clientX el) s = pathMouseMove (chartSizeOf c) rs clientX el s"
| "handleEvent c PathMouseLeave s = pathMouseLeave s"
| "handleEvent c (PathClick rs clientX el) s = pathClick (chartSizeOf c) rs clientX el s"
| "handleEvent c (MarkerMouseEnter rs p) s = markerMouseOver rs p s"
| "handleEvent c (MarkerMouseMove rs p) s = markerMouseOver rs p s"
| "handleEvent c MarkerMouseLeave s = markerMouseLeave s"
| "handleEvent c (MarkerClick rs p) s = markerClick rs p s"
| "handleEvent c (LegendMouseEnter rs) s = legendMouseEnter rs s"
| "handleEvent c LegendMouseLeave s = legendMouseLeave s"
| "handleEvent c (LegendClick rs) s = legendClick rs s"
| "handleEvent c (SvgMouseMove clientX clientY el) s = svgMouseMove c clientX clientY el s"
| "handleEvent c SvgMouseLeave s = svgMouseLeave s"
| "handleEvent c CardMouseLeave s = cardMouseLeave s"

fun isClick :: "event \<Rightarrow> bool" where
  "isClick (PathClick rs clientX el) = True"
| "isClick (MarkerClick rs p) = True"
| "isClick (LegendClick rs) = True"
| "isClick _ = False"

section \<open>Parent runs\<close>

text \<open>\<^verbatim>\<open>EmulatedParentRun\<close> and \<^verbatim>\<open>EmulatedRun\<close>; their \<^verbatim>\<open>id\<close> fields are
  \<open>parentId\<close> and \<open>emulatedId\<close>.\<close>

record emulatedParentRun =
  parentId :: int
  createdAt :: "string option"

record emulatedRun =
  emulatedId :: int
  runCreatedAt :: string
  parentRunId :: "int option"
  clientNumber :: "number option"
  delayAddedMs :: "number option"
  congestionControlAlgorithmId :: "int option"
  congestionControlAlgorithmName :: "string option"

text \<open>A string or null in a condition: null and the empty string are falsy.\<close>

definition isTruthy :: "string option \<Rightarrow> bool" where
  "isTruthy v = (case v of None \<Rightarrow> False | Some str \<Rightarrow> str \<noteq> [])"

text \<open>
  The comparator of \<^verbatim>\<open>mergedParentRuns\<close>. \<^verbatim>\<open>Date.parse\<close> is the host's function and is
  a parameter: it yields a time value or NaN, which is \<open>None\<close> here, as is a NaN result
  of the comparator.
\<close>

definition compareParentRuns ::
    "(string \<Rightarrow> real option) \<Rightarrow> emulatedParentRun \<Rightarrow> emulatedParentRun \<Rightarrow> real option" where
  "compareParentRuns parse a b =
     (if isTruthy (createdAt a) \<and> isTruthy (createdAt b)
      then (case (Option.bind (createdAt b) parse, Option.bind (createdAt a) parse) of
              (Some tb, Some ta) \<Rightarrow> Some (tb - ta)
            | _ \<Rightarrow> None)
      else if isTruthy (createdAt a) then Some (- 1)
      else if isTruthy (createdAt b) then Some 1
      else Some (of_int (parentId b - parentId a)))"

text \<open>
  \<^verbatim>\<open>Array.prototype.sort(comparefn)\<close>: a NaN from the comparator counts as 0, and the
  sort is stable. With a consistent comparator every stable sort gives the same array;
  insertion from the right is the one written here.
\<close>

definition sortCompare :: "('a \<Rightarrow> 'a \<Rightarrow> real option) \<Rightarrow> 'a \<Rightarrow> 'a \<Rightarrow> real" where
  "sortCompare comparefn a b = (case comparefn a b of None \<Rightarrow> 0 | Some v \<Rightarrow> v)"

fun insertSorted :: "('a \<Rightarrow> 'a \<Rightarrow> real option) \<Rightarrow> 'a \<Rightarrow> 'a list \<Rightarrow> 'a list" where
  "insertSorted comparefn a [] = [a]"
| "insertSorted comparefn a (b # bs) =
     (if sortCompare comparefn a b \<le> 0 then a # b # bs
      else b # insertSorted comparefn a bs)"

definition arraySort :: "('a \<Rightarrow> 'a \<Rightarrow> real option) \<Rightarrow> 'a list \<Rightarrow> 'a list" where
  "arraySort comparefn as = foldr (insertSorted comparefn) as []"

definition parentRunLookup ::
    "emulatedParentRun list \<Rightarrow> emulatedRun list \<Rightarrow> (int \<times> emulatedParentRun) list" where
  "parentRunLookup parentRuns runs =
     fold (\<lambda>run m.
             case parentRunId run of
               None \<Rightarrow> m
             | Some pid \<Rightarrow>
                 if map_of m pid = None
                 then mapSet pid \<lparr>parentId = pid, createdAt = None\<rparr> m
                 else m)
       runs
       (fold (\<lambda>parentRun m. mapSet (parentId parentRun) parentRun m) parentRuns [])"

definition mergedParentRuns ::
    "(string \<Rightarrow> real option) \<Rightarrow> emulatedParentRun list \<Rightarrow> emulatedRun list \<Rightarrow> emulatedParentRun list" where
  "mergedParentRuns parse parentRuns runs =
     arraySort (compareParentRuns parse) (map snd (parentRunLookup parentRuns runs))"

text \<open>
  The order the comparator describes, as a sort key under the lexicographic order of
  pairs: runs with a truthy \<^verbatim>\<open>createdAt\<close> first, by descending time; then the others, by
  descending id. It serves to state what the sort achieves.
\<close>

definition parentRunKey :: "(string \<Rightarrow> real option) \<Rightarrow> emulatedParentRun \<Rightarrow> nat \<times> real" where
  "parentRunKey parse a =
     (if isTruthy (createdAt a)
      then (0, - (case Option.bind (createdAt a) parse of Some t \<Rightarrow> t | None \<Rightarrow> 0))
      else (1, - of_int (parentId a)))"

section \<open>Coordinate Projector: order\<close>

lemma plotWidth_pos: "0 < plotWidth sz"
  by (simp add: plotWidth_def chartWidth_def leftPadding_def rightPadding_def)


lemma svgX_projectPoint:
  "svgX (projectPoint sz xMx yMn yMx p) =
     leftPadding sz + (max 0 (min xMx (xValue p)) / (if xMx = 0 then 1 else xMx)) * plotWidth sz"
  by (simp add: projectPoint_def Let_def xMin_def xDenominator_def)


lemma projectPoint_values [simp]:
  "xValue (projectPoint sz xMx yMn yMx p) = xValue p"
  "yValue (projectPoint sz xMx yMn yMx p) = yValue p"
  by (simp_all add: projectPoint_def Let_def)

lemma svgX_mono:
  assumes "xValue p \<le> xValue q"
  shows "svgX (projectPoint sz xMx yMn yMx p) \<le> svgX (projectPoint sz xMx yMn yMx q)"
proof (cases "0 < xMx")
  case True
  have "max 0 (min xMx (xValue p)) \<le> max 0 (min xMx (xValue q))"
    using assms by auto
  then have "max 0 (min xMx (xValue p)) / xMx \<le> max 0 (min xMx (xValue q)) / xMx"
    using True by (simp add: divide_right_mono)
  then have "max 0 (min xMx (xValue p)) / xMx * plotWidth sz
           \<le> max 0 (min xMx (xValue q)) / xMx * plotWidth sz"
    using plotWidth_pos[of sz] by (intro mult_right_mono) simp_all
  then show ?thesis using True by (simp only: svgX_projectPoint) simp
next
  case False
  then have "max 0 (min xMx (xValue p)) = 0" "max 0 (min xMx (xValue q)) = 0"
    by auto
  then show ?thesis by (simp add: svgX_projectPoint)
qed

text \<open>
  C10. The projection is monotone in x: for every chart size and all domain bounds, a
  point with the smaller or equal \<open>xValue\<close> gets the smaller or equal pixel x, clamping
  included; so a run whose points are sorted by \<open>xValue\<close> is rendered with pixel x
  coordinates that never decrease.
\<close>

theorem projection_monotone:
  "(xValue p \<le> xValue q \<longrightarrow>
      svgX (projectPoint sz xMx yMn yMx p) \<le> svgX (projectPoint sz xMx yMn yMx q))
   \<and> (sorted (map xValue (points runSeries)) \<longrightarrow>
      sorted (map svgX (svgPoints (renderRun sz xMx yMn yMx runSeries))))"
proof (intro conjI impI)
  assume "xValue p \<le> xValue q"
  then show "svgX (projectPoint sz xMx yMn yMx p) \<le> svgX (projectPoint sz xMx yMn yMx q)"
    by (rule svgX_mono)
next
  assume "sorted (map xValue (points runSeries))"
  then have "sorted_wrt (\<lambda>a b. xValue a \<le> xValue b) (points runSeries)"
    by (simp add: sorted_map)
  then have "sorted_wrt (\<lambda>a b. svgX (projectPoint sz xMx yMn yMx a) \<le> svgX (projectPoint sz xMx yMn yMx b))
      (points runSeries)"
    by (rule sorted_wrt_mono_rel[rotated]) (simp add: svgX_mono)
  then show "sorted (map svgX (svgPoints (renderRun sz xMx yMn yMx runSeries)))"
    by (simp add: renderRun_def sorted_map sorted_wrt_map)
qed


text \<open>Two points of one run at x = 2 and x = 20, with the x-domain ending at 10.\<close>

theorem projection_monotone_witness:
  "xValue \<lparr>xValue = 2, yValue = 5\<rparr> \<le> xValue \<lparr>xValue = 20, yValue = 7::real\<rparr>
   \<and> svgX (projectPoint Default 10 0 120 \<lparr>xValue = 2, yValue = 5\<rparr>)
       \<le> svgX (projectPoint Default 10 0 120 \<lparr>xValue = 20, yValue = 7\<rparr>)
   \<and> sorted (map xValue (points
        \<lparr>runId = 1, shortLabel = ''cubic'', label = ''cubic'', clientSummary = ''cubic, 50ms'',
         color = ''#0d9488'', seriesData = [],
         points = [\<lparr>xValue = 2, yValue = 5\<rparr>, \<lparr>xValue = 20, yValue = 7\<rparr>]\<rparr>))
   \<and> sorted (map svgX (svgPoints (renderRun Default 10 0 120
        \<lparr>runId = 1, shortLabel = ''cubic'', label = ''cubic'', clientSummary = ''cubic, 50ms'',
         color = ''#0d9488'', seriesData = [],
         points = [\<lparr>xValue = 2, yValue = 5\<rparr>, \<lparr>xValue = 20, yValue = 7\<rparr>]\<rparr>)))"
  using projection_monotone[of "\<lparr>xValue = 2, yValue = 5\<rparr>" "\<lparr>xValue = 20, yValue = 7\<rparr>"
      Default 10 0 120
      "\<lparr>runId = 1, shortLabel = ''cubic'', label = ''cubic'', clientSummary = ''cubic, 50ms'',
         color = ''#0d9488'', seriesData = [],
         points = [\<lparr>xValue = 2, yValue = 5\<rparr>, \<lparr>xValue = 20, yValue = 7\<rparr>]\<rparr>"]
  by simp

section \<open>Aggregate Series Synthesizer: buckets\<close>

lemma map_of_mapSet: "map_of (mapSet k v m) = (map_of m)(k \<mapsto> v)"
  by (induction m) (auto simp: fun_eq_iff)

lemma keys_mapSet: "fst ` set (mapSet k v m) = insert k (fst ` set m)"
  by (induction m) force+

lemma distinct_mapSet: "distinct (map fst m) \<Longrightarrow> distinct (map fst (mapSet k v m))"
  by (induction m) (auto simp: keys_mapSet)

lemma keys_fold_addToSum:
  "fst ` set (fold addToSum pts m) = fst ` set m \<union> (\<lambda>p. toFixed 3 (xValue p)) ` set pts"
  by (induction pts arbitrary: m) (auto simp: addToSum_def Let_def keys_mapSet)

lemma distinct_fold_addToSum:
  "distinct (map fst m) \<Longrightarrow> distinct (map fst (fold addToSum pts m))"
  by (induction pts arbitrary: m) (auto simp: addToSum_def Let_def distinct_mapSet)

lemma map_of_fold_addToSum:
  "map_of (fold addToSum pts m) k =
     (if k \<in> fst ` set m \<union> (\<lambda>p. toFixed 3 (xValue p)) ` set pts
      then Some ((case map_of m k of Some c \<Rightarrow> c | None \<Rightarrow> 0)
                 + sum_list (map yValue (filter (\<lambda>p. toFixed 3 (xValue p) = k) pts)))
      else None)"
proof (induction pts arbitrary: m)
  case Nil
  show ?case
  proof (cases "map_of m k")
    case None
    then show ?thesis by (simp add: map_of_eq_None_iff)
  next
    case (Some a)
    then have "k \<in> fst ` set m" by (metis map_of_eq_None_iff option.distinct(1))
    then show ?thesis using Some by simp
  qed
next
  case (Cons p pts)
  show ?case
    unfolding fold_simps Cons.IH
    by (auto simp: addToSum_def Let_def keys_mapSet map_of_mapSet map_of_eq_None_iff
          split: option.splits)
qed

lemma fold_fold_concat: "fold (\<lambda>x. fold f (g x)) xs a = fold f (concat (map g xs)) a"
  by (induction xs arbitrary: a) simp_all

lemma sumByX_fold: "sumByX ns = fold addToSum (concat (map points ns)) []"
  by (simp add: sumByX_def fold_fold_concat)


lemma sumByX_keys:
  "fst ` set (sumByX ns) = (\<lambda>p. toFixed 3 (xValue p)) ` set (concat (map points ns))"
  unfolding sumByX_fold keys_fold_addToSum by simp

lemma sumByX_distinct: "distinct (map fst (sumByX ns))"
  unfolding sumByX_fold by (rule distinct_fold_addToSum) simp

lemma sumByX_entry:
  assumes "(k, v) \<in> set (sumByX ns)"
  shows "v = sum_list (map yValue (filter (\<lambda>p. toFixed 3 (xValue p) = k) (concat (map points ns))))"
proof -
  have "map_of (sumByX ns) k = Some v"
    using assms sumByX_distinct by (rule map_of_is_SomeI[rotated])
  moreover have "k \<in> fst ` set (sumByX ns)" using assms by force
  ultimately show ?thesis
    unfolding sumByX_fold map_of_fold_addToSum keys_fold_addToSum by simp
qed

lemma throughputSumPoints_set:
  "set (throughputSumPoints ns) = (\<lambda>(xv, yv). \<lparr>xValue = xv, yValue = yv\<rparr>) ` set (sumByX ns)"
  by (simp add: throughputSumPoints_def)

lemma throughputSumPoints_xs:
  "xValue ` set (throughputSumPoints ns)
     = (\<lambda>p. toFixed 3 (xValue p)) ` set (concat (map points ns))"
proof -
  have "xValue ` set (throughputSumPoints ns) = fst ` set (sumByX ns)"
    unfolding throughputSumPoints_set by (force simp: image_iff)
  then show ?thesis by (simp only: sumByX_keys)
qed

lemma distinct_map_sort_key:
  "distinct (map f xs) \<Longrightarrow> distinct (map f (sort_key f xs))"
  by (induction xs) (auto simp: distinct_insort_key)

lemma throughputSumPoints_sorted: "sorted_wrt (<) (map xValue (throughputSumPoints ns))"
proof -
  let ?l = "map (\<lambda>(xv, yv). \<lparr>xValue = xv, yValue = yv\<rparr>) (sumByX ns)"
  have m: "map xValue ?l = map fst (sumByX ns)" by (simp add: case_prod_unfold comp_def)
  have "distinct (map xValue ?l)" unfolding m by (rule sumByX_distinct)
  then have "distinct (map xValue (sort_key xValue ?l))"
    by (rule distinct_map_sort_key)
  then show ?thesis
    by (simp add: strict_sorted_iff throughputSumPoints_def)
qed

lemma throughputSumPoints_y:
  assumes "b \<in> set (throughputSumPoints ns)"
  shows "yValue b = sum_list (map yValue
     (filter (\<lambda>p. toFixed 3 (xValue p) = xValue b) (concat (map points ns))))"
proof -
  obtain k v where kv: "(k, v) \<in> set (sumByX ns)" and b: "b = \<lparr>xValue = k, yValue = v\<rparr>"
    using assms unfolding throughputSumPoints_set by auto
  show ?thesis using sumByX_entry[OF kv] by (simp add: b)
qed

lemma throughputSumPoints_empty:
  "throughputSumPoints ns = [] \<longleftrightarrow> concat (map points ns) = []"
proof -
  have "throughputSumPoints ns = [] \<longleftrightarrow> xValue ` set (throughputSumPoints ns) = {}"
    by simp
  also have "\<dots> \<longleftrightarrow> set (concat (map points ns)) = {}"
    unfolding throughputSumPoints_xs by simp
  finally show ?thesis by simp
qed


lemma toFixed_3_samples: "toFixed 3 (10001 / 10000) = 1" "toFixed 3 (10003 / 10000) = 1" "toFixed 3 1 = 1" "toFixed 3 2 = 2"
   "toFixed 3 0 = 0"
  by (simp_all add: toFixed_def)

text \<open>
  C4. The points of the sum series are strictly ascending in x; their x-values are
  exactly the x-values of the normalized points rounded to three decimals; the y of each
  is the sum of the y-values of all points whose rounded x is that x. For the throughput
  metric the synthetic series is absent exactly when there is no point at all, and
  otherwise it is labelled "sum Mbps", carries the reserved id and projects these points.
  Two runs with one point each at x = 1.0001 and x = 1.0003 give the single bucket at
  x = 1 with the sum of both; two runs with points at x = 1 and x = 2 give two buckets
  with the sums per x.
\<close>

theorem throughput_sum_series:
  "sorted_wrt (<) (map xValue (throughputSumPoints ns))
   \<and> xValue ` set (throughputSumPoints ns)
       = (\<lambda>p. toFixed 3 (xValue p)) ` set (concat (map points ns))
   \<and> (\<forall>bucket \<in> set (throughputSumPoints ns).
         yValue bucket = sum_list (map yValue
           (filter (\<lambda>p. toFixed 3 (xValue p) = xValue bucket) (concat (map points ns)))))
   \<and> (case throughputSumForRender sz ''mbps'' xMx yMn yMx ns of
         None \<Rightarrow> concat (map points ns) = []
       | Some s \<Rightarrow>
           concat (map points ns) \<noteq> [] \<and> label s = ''sum Mbps'' \<and> shortLabel s = ''sum Mbps''
           \<and> runId s = THROUGHPUT_SUM_SERIES_ID
           \<and> svgPoints s = map (projectPoint sz xMx yMn yMx) (throughputSumPoints ns))
   \<and> throughputSumPoints
         [r1\<lparr>points := [\<lparr>xValue = 1.0001, yValue = a\<rparr>]\<rparr>,
          r2\<lparr>points := [\<lparr>xValue = 1.0003, yValue = b\<rparr>]\<rparr>]
       = [\<lparr>xValue = 1, yValue = a + b\<rparr>]
   \<and> throughputSumPoints
         [r1\<lparr>points := [\<lparr>xValue = 1, yValue = a1\<rparr>, \<lparr>xValue = 2, yValue = a2\<rparr>]\<rparr>,
          r2\<lparr>points := [\<lparr>xValue = 1, yValue = b1\<rparr>, \<lparr>xValue = 2, yValue = b2\<rparr>]\<rparr>]
       = [\<lparr>xValue = 1, yValue = a1 + b1\<rparr>, \<lparr>xValue = 2, yValue = a2 + b2\<rparr>]"
proof (intro conjI)
  show "sorted_wrt (<) (map xValue (throughputSumPoints ns))"
    by (rule throughputSumPoints_sorted)
  show "xValue ` set (throughputSumPoints ns)
       = (\<lambda>p. toFixed 3 (xValue p)) ` set (concat (map points ns))"
    by (rule throughputSumPoints_xs)
  show "\<forall>bucket \<in> set (throughputSumPoints ns).
         yValue bucket = sum_list (map yValue
           (filter (\<lambda>p. toFixed 3 (xValue p) = xValue bucket) (concat (map points ns))))"
    using throughputSumPoints_y by blast
  show "case throughputSumForRender sz ''mbps'' xMx yMn yMx ns of
         None \<Rightarrow> concat (map points ns) = []
       | Some s \<Rightarrow>
           concat (map points ns) \<noteq> [] \<and> label s = ''sum Mbps'' \<and> shortLabel s = ''sum Mbps''
           \<and> runId s = THROUGHPUT_SUM_SERIES_ID
           \<and> svgPoints s = map (projectPoint sz xMx yMn yMx) (throughputSumPoints ns)"
    using throughputSumPoints_empty[of ns]
    by (simp add: throughputSumForRender_def Let_def)
  show "throughputSumPoints
         [r1\<lparr>points := [\<lparr>xValue = 1.0001, yValue = a\<rparr>]\<rparr>,
          r2\<lparr>points := [\<lparr>xValue = 1.0003, yValue = b\<rparr>]\<rparr>]
       = [\<lparr>xValue = 1, yValue = a + b\<rparr>]"
    by (simp add: throughputSumPoints_def sumByX_def addToSum_def Let_def toFixed_3_samples)
  show "throughputSumPoints
         [r1\<lparr>points := [\<lparr>xValue = 1, yValue = a1\<rparr>, \<lparr>xValue = 2, yValue = a2\<rparr>]\<rparr>,
          r2\<lparr>points := [\<lparr>xValue = 1, yValue = b1\<rparr>, \<lparr>xValue = 2, yValue = b2\<rparr>]\<rparr>]
       = [\<lparr>xValue = 1, yValue = a1 + b1\<rparr>, \<lparr>xValue = 2, yValue = a2 + b2\<rparr>]"
    by (simp add: throughputSumPoints_def sumByX_def addToSum_def Let_def toFixed_3_samples)
qed

text \<open>Two runs with the points (0, 10), (1, 12) and (0, 8), (1, 9): the bucket at x = 1.\<close>

theorem throughput_sum_series_witness:
  "\<lparr>xValue = 1, yValue = 21\<rparr> \<in> set (throughputSumPoints
      [\<lparr>runId = 1, shortLabel = ''cubic'', label = ''cubic'', clientSummary = ''cubic, 50ms'',
        color = ''#0d9488'', seriesData = [],
        points = [\<lparr>xValue = 0, yValue = 10\<rparr>, \<lparr>xValue = 1, yValue = 12\<rparr>]\<rparr>,
       \<lparr>runId = 2, shortLabel = ''bbr'', label = ''bbr'', clientSummary = ''bbr, 50ms'',
        color = ''#dc2626'', seriesData = [],
        points = [\<lparr>xValue = 0, yValue = 8\<rparr>, \<lparr>xValue = 1, yValue = 9\<rparr>]\<rparr>])
   \<and> yValue \<lparr>xValue = 1, yValue = 21\<rparr> = sum_list (map yValue
         (filter (\<lambda>p. toFixed 3 (xValue p) = 1)
            [\<lparr>xValue = 0, yValue = 10\<rparr>, \<lparr>xValue = 1, yValue = 12\<rparr>,
             \<lparr>xValue = 0, yValue = 8\<rparr>, \<lparr>xValue = 1, yValue = 9::real\<rparr>]))"
proof -
  let ?ns = "[\<lparr>runId = 1, shortLabel = ''cubic'', label = ''cubic'', clientSummary = ''cubic, 50ms'',
        color = ''#0d9488'', seriesData = [],
        points = [\<lparr>xValue = 0, yValue = 10\<rparr>, \<lparr>xValue = 1, yValue = 12\<rparr>]\<rparr>,
       \<lparr>runId = 2, shortLabel = ''bbr'', label = ''bbr'', clientSummary = ''bbr, 50ms'',
        color = ''#dc2626'', seriesData = [],
        points = [\<lparr>xValue = 0, yValue = 8\<rparr>, \<lparr>xValue = 1, yValue = 9\<rparr>]\<rparr>]"
  have e: "throughputSumPoints ?ns = [\<lparr>xValue = 0, yValue = 18\<rparr>, \<lparr>xValue = 1, yValue = 21\<rparr>]"
    by (simp add: throughputSumPoints_def sumByX_def addToSum_def Let_def toFixed_3_samples)
  have m: "\<lparr>xValue = 1, yValue = 21\<rparr> \<in> set (throughputSumPoints ?ns)"
    unfolding e by simp
  from throughput_sum_series[of ?ns] m
  have "yValue \<lparr>xValue = 1, yValue = 21\<rparr> = sum_list (map yValue
         (filter (\<lambda>p. toFixed 3 (xValue p) = xValue \<lparr>xValue = 1, yValue = 21::real\<rparr>) (concat (map points ?ns))))"
    by blast
  then show ?thesis using m by simp
qed

section \<open>Series Normalizer: points and runs\<close>

lemma set_filterNonNull: "set (filterNonNull xs) = {x. Some x \<in> set xs}"
  by (induction xs rule: filterNonNull.induct) auto











section \<open>Parent runs: the order of the merged list\<close>

lemma compare_key:
  assumes "isTruthy (createdAt a) \<longrightarrow> Option.bind (createdAt a) parse \<noteq> None"
      and "isTruthy (createdAt b) \<longrightarrow> Option.bind (createdAt b) parse \<noteq> None"
  shows "sortCompare (compareParentRuns parse) a b \<le> 0
           \<longleftrightarrow> parentRunKey parse a \<le> parentRunKey parse b"
  using assms
  by (auto simp: sortCompare_def compareParentRuns_def parentRunKey_def less_eq_prod_def
        split: option.splits)

lemma insertSorted_insort_key:
  assumes "isTruthy (createdAt a) \<longrightarrow> Option.bind (createdAt a) parse \<noteq> None"
      and "\<forall>b \<in> set bs. isTruthy (createdAt b) \<longrightarrow> Option.bind (createdAt b) parse \<noteq> None"
  shows "insertSorted (compareParentRuns parse) a bs = insort_key (parentRunKey parse) a bs"
  using assms(2)
proof (induction bs)
  case Nil
  show ?case by simp
next
  case (Cons b bs)
  then show ?case using compare_key[OF assms(1), of b] by simp
qed

lemma arraySort_sort_key:
  assumes "\<forall>p \<in> set rs. isTruthy (createdAt p) \<longrightarrow> Option.bind (createdAt p) parse \<noteq> None"
  shows "arraySort (compareParentRuns parse) rs = sort_key (parentRunKey parse) rs"
  using assms
proof (induction rs)
  case Nil
  show ?case by (simp add: arraySort_def)
next
  case (Cons a rs)
  then have ih: "arraySort (compareParentRuns parse) rs = sort_key (parentRunKey parse) rs"
    by simp
  have "arraySort (compareParentRuns parse) (a # rs)
        = insertSorted (compareParentRuns parse) a (sort_key (parentRunKey parse) rs)"
    using ih by (simp add: arraySort_def)
  also have "\<dots> = insort_key (parentRunKey parse) a (sort_key (parentRunKey parse) rs)"
    using Cons.prems by (intro insertSorted_insort_key) simp_all
  finally show ?case by simp
qed

lemma in_mapSet: "(k', v') \<in> set (mapSet k v m) \<Longrightarrow> v' = v \<or> (k', v') \<in> set m"
  by (induction m) (auto split: if_splits)

lemma in_fold_parentRuns:
  "(k, p) \<in> set (fold (\<lambda>parentRun m. mapSet (parentId parentRun) parentRun m) prs m0)
   \<Longrightarrow> (k, p) \<in> set m0 \<or> p \<in> set prs"
proof (induction prs arbitrary: m0)
  case Nil
  then show ?case by simp
next
  case (Cons q prs)
  from Cons.prems have "(k, p) \<in> set (mapSet (parentId q) q m0) \<or> p \<in> set prs"
    using Cons.IH[of "mapSet (parentId q) q m0"] by simp
  then show ?case using in_mapSet[of k p "parentId q" q m0] by auto
qed

lemma in_fold_runs:
  "(k, p) \<in> set (fold (\<lambda>run m.
             case parentRunId run of
               None \<Rightarrow> m
             | Some pid \<Rightarrow>
                 if map_of m pid = None
                 then mapSet pid \<lparr>parentId = pid, createdAt = None\<rparr> m
                 else m) rns m0)
   \<Longrightarrow> (k, p) \<in> set m0 \<or> createdAt p = None"
proof (induction rns arbitrary: m0)
  case Nil
  then show ?case by simp
next
  case (Cons r rns)
  show ?case
  proof (cases "parentRunId r")
    case None
    then show ?thesis using Cons.prems Cons.IH[of m0] by simp
  next
    case (Some pid)
    show ?thesis
    proof (cases "map_of m0 pid")
      case None
      let ?q = "\<lparr>parentId = pid, createdAt = None\<rparr>"
      from Cons.prems have "(k, p) \<in> set (mapSet pid ?q m0) \<or> createdAt p = None"
        using Cons.IH[of "mapSet pid ?q m0"] Some None by simp
      then show ?thesis using in_mapSet[of k p pid ?q m0] by auto
    next
      case (Some q)
      then show ?thesis using Cons.prems Cons.IH[of m0] \<open>parentRunId r = Some pid\<close> by simp
    qed
  qed
qed

lemma parentRunLookup_values:
  assumes "p \<in> set (map snd (parentRunLookup parentRuns runs))"
  shows "p \<in> set parentRuns \<or> createdAt p = None"
proof -
  obtain k where "(k, p) \<in> set (parentRunLookup parentRuns runs)"
    using assms by auto
  then have "(k, p) \<in> set (fold (\<lambda>parentRun m. mapSet (parentId parentRun) parentRun m) parentRuns [])
      \<or> createdAt p = None"
    unfolding parentRunLookup_def by (rule in_fold_runs)
  then show ?thesis using in_fold_parentRuns[of k p parentRuns "[]"] by auto
qed


lemma key_order_unfold:
  assumes "isTruthy (createdAt a) \<longrightarrow> Option.bind (createdAt a) parse \<noteq> None"
      and "isTruthy (createdAt b) \<longrightarrow> Option.bind (createdAt b) parse \<noteq> None"
      and "parentRunKey parse a \<le> parentRunKey parse b"
  shows "(isTruthy (createdAt b) \<longrightarrow> isTruthy (createdAt a))
       \<and> (isTruthy (createdAt b) \<longrightarrow>
            (\<exists>ta tb. Option.bind (createdAt a) parse = Some ta
               \<and> Option.bind (createdAt b) parse = Some tb \<and> tb \<le> ta))
       \<and> (\<not> isTruthy (createdAt a) \<longrightarrow> parentId b \<le> parentId a)"
  using assms
  by (auto simp: parentRunKey_def less_eq_prod_def split: if_splits option.splits)

lemma key_dated_iff:
  assumes "isTruthy (createdAt p) \<longrightarrow> Option.bind (createdAt p) parse \<noteq> None"
  shows "(isTruthy (createdAt p) \<and> Option.bind (createdAt p) parse = Some t)
         \<longleftrightarrow> parentRunKey parse p = (0, - t)"
  using assms by (auto simp: parentRunKey_def split: option.splits)

text \<open>
  C9. Provided \<^verbatim>\<open>Date.parse\<close> yields a time for every truthy \<^verbatim>\<open>createdAt\<close> of the
  loaded parent runs: the merged list is a permutation of the values of the lookup; in
  it, a run with a truthy \<^verbatim>\<open>createdAt\<close> never follows one without, runs with a truthy
  \<^verbatim>\<open>createdAt\<close> are in descending order of time, and runs without are in descending
  order of id. Runs that share the time of a truthy \<^verbatim>\<open>createdAt\<close> stay in the order in
  which the lookup holds them: the id does not break that tie.
\<close>

theorem merged_parent_runs_order:
  assumes "\<forall>p \<in> set parentRuns. isTruthy (createdAt p) \<longrightarrow> Option.bind (createdAt p) parse \<noteq> None"
  shows "mset (mergedParentRuns parse parentRuns runs)
           = mset (map snd (parentRunLookup parentRuns runs))
       \<and> (\<forall>i j. i < j \<and> j < length (mergedParentRuns parse parentRuns runs) \<longrightarrow>
             (isTruthy (createdAt (mergedParentRuns parse parentRuns runs ! j))
                \<longrightarrow> isTruthy (createdAt (mergedParentRuns parse parentRuns runs ! i)))
           \<and> (isTruthy (createdAt (mergedParentRuns parse parentRuns runs ! j)) \<longrightarrow>
                (\<exists>ti tj.
                   Option.bind (createdAt (mergedParentRuns parse parentRuns runs ! i)) parse = Some ti
                 \<and> Option.bind (createdAt (mergedParentRuns parse parentRuns runs ! j)) parse = Some tj
                 \<and> tj \<le> ti))
           \<and> (\<not> isTruthy (createdAt (mergedParentRuns parse parentRuns runs ! i)) \<longrightarrow>
                parentId (mergedParentRuns parse parentRuns runs ! j)
                  \<le> parentId (mergedParentRuns parse parentRuns runs ! i)))
       \<and> (\<forall>t. filter (\<lambda>p. isTruthy (createdAt p) \<and> Option.bind (createdAt p) parse = Some t)
                 (mergedParentRuns parse parentRuns runs)
              = filter (\<lambda>p. isTruthy (createdAt p) \<and> Option.bind (createdAt p) parse = Some t)
                 (map snd (parentRunLookup parentRuns runs)))"
proof -
  define V where "V = map snd (parentRunLookup parentRuns runs)"
  define S where "S = mergedParentRuns parse parentRuns runs"
  have hv: "\<forall>p \<in> set V. isTruthy (createdAt p) \<longrightarrow> Option.bind (createdAt p) parse \<noteq> None"
  proof
    fix p assume "p \<in> set V"
    then have "p \<in> set parentRuns \<or> createdAt p = None"
      unfolding V_def by (rule parentRunLookup_values)
    then show "isTruthy (createdAt p) \<longrightarrow> Option.bind (createdAt p) parse \<noteq> None"
      using assms by (auto simp: isTruthy_def)
  qed
  have S: "S = sort_key (parentRunKey parse) V"
    unfolding S_def mergedParentRuns_def V_def[symmetric] using hv by (rule arraySort_sort_key)
  have set: "set S = set V" and len: "length S = length V" by (simp_all add: S)
  have c1: "mset S = mset V" by (simp add: S)
  have c2: "(isTruthy (createdAt (S ! j)) \<longrightarrow> isTruthy (createdAt (S ! i)))
       \<and> (isTruthy (createdAt (S ! j)) \<longrightarrow>
            (\<exists>ti tj. Option.bind (createdAt (S ! i)) parse = Some ti
               \<and> Option.bind (createdAt (S ! j)) parse = Some tj \<and> tj \<le> ti))
       \<and> (\<not> isTruthy (createdAt (S ! i)) \<longrightarrow> parentId (S ! j) \<le> parentId (S ! i))"
    if ij: "i < j \<and> j < length S" for i j
  proof -
    have "sorted (map (parentRunKey parse) S)" unfolding S by (rule sorted_sort_key)
    then have "map (parentRunKey parse) S ! i \<le> map (parentRunKey parse) S ! j"
      using ij by (intro sorted_nth_mono) simp_all
    then have k: "parentRunKey parse (S ! i) \<le> parentRunKey parse (S ! j)"
      using ij by simp
    have "S ! i \<in> set V" "S ! j \<in> set V" using ij set nth_mem[of i S] nth_mem[of j S] by auto
    then show ?thesis using hv k by (intro key_order_unfold) blast+
  qed
  have c3: "filter (\<lambda>p. isTruthy (createdAt p) \<and> Option.bind (createdAt p) parse = Some t) S
          = filter (\<lambda>p. isTruthy (createdAt p) \<and> Option.bind (createdAt p) parse = Some t) V" for t
  proof -
    have "filter (\<lambda>p. isTruthy (createdAt p) \<and> Option.bind (createdAt p) parse = Some t) S
        = filter (\<lambda>p. parentRunKey parse p = (0, - t)) S"
      using hv set by (intro filter_cong refl key_dated_iff) blast
    also have "\<dots> = filter (\<lambda>p. parentRunKey parse p = (0, - t)) V"
      unfolding S by (rule sort_key_stable)
    also have "\<dots> = filter (\<lambda>p. isTruthy (createdAt p) \<and> Option.bind (createdAt p) parse = Some t) V"
      using hv by (intro filter_cong refl key_dated_iff[symmetric]) blast
    finally show ?thesis .
  qed
  show ?thesis
    unfolding S_def[symmetric] V_def[symmetric] using c1 c2 c3 by blast
qed


text \<open>
  Two loaded parent runs, of January and of February, and two runs whose parents 2 and 4
  were not loaded: February, January, then the parents 4 and 2.
\<close>

theorem merged_parent_runs_order_witness:
  "mergedParentRuns
      [''2024-01-01T00:00:00Z'' \<mapsto> 1704067200000, ''2024-02-01T00:00:00Z'' \<mapsto> 1706745600000]
      [\<lparr>parentId = 1, createdAt = Some ''2024-01-01T00:00:00Z''\<rparr>,
       \<lparr>parentId = 3, createdAt = Some ''2024-02-01T00:00:00Z''\<rparr>]
      [\<lparr>emulatedId = 10, runCreatedAt = ''2024-02-01T00:00:05Z'', parentRunId = Some 2,
        clientNumber = Some (Num 1), delayAddedMs = Some (Num 50),
        congestionControlAlgorithmId = Some 1, congestionControlAlgorithmName = Some ''cubic''\<rparr>,
       \<lparr>emulatedId = 11, runCreatedAt = ''2024-02-01T00:00:06Z'', parentRunId = Some 4,
        clientNumber = Some (Num 1), delayAddedMs = Some (Num 50),
        congestionControlAlgorithmId = Some 2, congestionControlAlgorithmName = Some ''bbr''\<rparr>]
    = [\<lparr>parentId = 3, createdAt = Some ''2024-02-01T00:00:00Z''\<rparr>,
       \<lparr>parentId = 1, createdAt = Some ''2024-01-01T00:00:00Z''\<rparr>,
       \<lparr>parentId = 4, createdAt = None\<rparr>,
       \<lparr>parentId = 2, createdAt = None\<rparr>]
   \<and> mset (mergedParentRuns
      [''2024-01-01T00:00:00Z'' \<mapsto> 1704067200000, ''2024-02-01T00:00:00Z'' \<mapsto> 1706745600000]
      [\<lparr>parentId = 1, createdAt = Some ''2024-01-01T00:00:00Z''\<rparr>,
       \<lparr>parentId = 3, createdAt = Some ''2024-02-01T00:00:00Z''\<rparr>]
      [\<lparr>emulatedId = 10, runCreatedAt = ''2024-02-01T00:00:05Z'', parentRunId = Some 2,
        clientNumber = Some (Num 1), delayAddedMs = Some (Num 50),
        congestionControlAlgorithmId = Some 1, congestionControlAlgorithmName = Some ''cubic''\<rparr>,
       \<lparr>emulatedId = 11, runCreatedAt = ''2024-02-01T00:00:06Z'', parentRunId = Some 4,
        clientNumber = Some (Num 1), delayAddedMs = Some (Num 50),
        congestionControlAlgorithmId = Some 2, congestionControlAlgorithmName = Some ''bbr''\<rparr>])
    = {#\<lparr>parentId = 1, createdAt = Some ''2024-01-01T00:00:00Z''\<rparr>,
        \<lparr>parentId = 3, createdAt = Some ''2024-02-01T00:00:00Z''\<rparr>,
        \<lparr>parentId = 2, createdAt = None\<rparr>,
        \<lparr>parentId = 4, createdAt = None\<rparr>#}"
proof -
  let ?parse = "[''2024-01-01T00:00:00Z'' \<mapsto> 1704067200000::real, ''2024-02-01T00:00:00Z'' \<mapsto> 1706745600000]"
  let ?prs = "[\<lparr>parentId = 1, createdAt = Some ''2024-01-01T00:00:00Z''\<rparr>,
       \<lparr>parentId = 3, createdAt = Some ''2024-02-01T00:00:00Z''\<rparr>]"
  let ?runs = "[\<lparr>emulatedId = 10, runCreatedAt = ''2024-02-01T00:00:05Z'', parentRunId = Some 2,
        clientNumber = Some (Num 1), delayAddedMs = Some (Num 50),
        congestionControlAlgorithmId = Some 1, congestionControlAlgorithmName = Some ''cubic''\<rparr>,
       \<lparr>emulatedId = 11, runCreatedAt = ''2024-02-01T00:00:06Z'', parentRunId = Some 4,
        clientNumber = Some (Num 1), delayAddedMs = Some (Num 50),
        congestionControlAlgorithmId = Some 2, congestionControlAlgorithmName = Some ''bbr''\<rparr>]"
  have h: "\<forall>p \<in> set ?prs. isTruthy (createdAt p) \<longrightarrow> Option.bind (createdAt p) ?parse \<noteq> None"
    by simp
  have l: "map snd (parentRunLookup ?prs ?runs) =
     [\<lparr>parentId = 1, createdAt = Some ''2024-01-01T00:00:00Z''\<rparr>,
      \<lparr>parentId = 3, createdAt = Some ''2024-02-01T00:00:00Z''\<rparr>,
      \<lparr>parentId = 2, createdAt = None\<rparr>,
      \<lparr>parentId = 4, createdAt = None\<rparr>]"
    by (simp add: parentRunLookup_def)
  have e: "mergedParentRuns ?parse ?prs ?runs =
      [\<lparr>parentId = 3, createdAt = Some ''2024-02-01T00:00:00Z''\<rparr>,
       \<lparr>parentId = 1, createdAt = Some ''2024-01-01T00:00:00Z''\<rparr>,
       \<lparr>parentId = 4, createdAt = None\<rparr>,
       \<lparr>parentId = 2, createdAt = None\<rparr>]"
    unfolding mergedParentRuns_def l
    by (simp add: arraySort_def sortCompare_def compareParentRuns_def isTruthy_def)
  from merged_parent_runs_order[OF h, of ?runs]
  have "mset (mergedParentRuns ?parse ?prs ?runs) = mset (map snd (parentRunLookup ?prs ?runs))"
    by blast
  then show ?thesis unfolding l using e by simp
qed

text \<open>
  Two parent runs with the same \<^verbatim>\<open>createdAt\<close>, loaded with id 1 before id 2: the
  comparator returns 0 and the merged list keeps id 1 before id 2.
\<close>

theorem equal_created_at_keeps_input_order:
  "mergedParentRuns [''2024-01-01T00:00:00Z'' \<mapsto> 1704067200000]
      [\<lparr>parentId = 1, createdAt = Some ''2024-01-01T00:00:00Z''\<rparr>,
       \<lparr>parentId = 2, createdAt = Some ''2024-01-01T00:00:00Z''\<rparr>] []
    = [\<lparr>parentId = 1, createdAt = Some ''2024-01-01T00:00:00Z''\<rparr>,
       \<lparr>parentId = 2, createdAt = Some ''2024-01-01T00:00:00Z''\<rparr>]"
  by (simp add: mergedParentRuns_def parentRunLookup_def arraySort_def sortCompare_def
        compareParentRuns_def isTruthy_def)

section \<open>Chart layout: what a render pass returns\<close>

lemma yScale_mbps:
  "yScale buildNiceYTicks ''mbps'' yValues
     = Some \<lparr>scaleMin = 0, scaleMax = 120, ticks = [0, 40, 80, 120]\<rparr>"
proof -
  have n: "nat \<lfloor>THROUGHPUT_AXIS_MAX_MBPS / THROUGHPUT_AXIS_TICK_STEP_MBPS + 1\<rfloor> = 4"
    by (simp add: THROUGHPUT_AXIS_MAX_MBPS_def THROUGHPUT_AXIS_TICK_STEP_MBPS_def)
  have u: "[0 ..< 4] = [0, 1, 2, 3::nat]"
    by (simp add: upt_rec)
  show ?thesis
    unfolding yScale_def n u
    by (simp add: THROUGHPUT_AXIS_MAX_MBPS_def THROUGHPUT_AXIS_TICK_STEP_MBPS_def)
qed

lemma yScale_other:
  assumes "metricId \<noteq> ''mbps''"
  shows "yScale buildNiceYTicks metricId (v # vs)
     = buildNiceYTicks (Num 0)
         (Num (max (fold max vs v + max ((fold max vs v - fold min vs v) * 0.12) 0.001) 0.001))"
  using assms by (simp add: yScale_def Let_def)

lemma fold_max_ge_all: "(a::real) \<le> fold max xs a \<and> (\<forall>x \<in> set xs. x \<le> fold max xs a)"
proof (induction xs arbitrary: a)
  case Nil
  show ?case by simp
next
  case (Cons y xs)
  have "max y a \<le> fold max xs (max y a)" "\<forall>x \<in> set xs. x \<le> fold max xs (max y a)"
    using Cons.IH[of "max y a"] by simp_all
  then show ?case by auto
qed




lemma xTicksFor_returns:
  assumes "0 \<le> xMx" "of_int \<lfloor>xMx\<rfloor> + 1 \<le> (2 ^ 32 - 1 :: real)"
  shows "xTicksFor xMx = Inr (map real [0 ..< nat (\<lfloor>xMx\<rfloor> + 1)])"
proof -
  have f: "0 \<le> \<lfloor>xMx\<rfloor>" using assms(1) by simp
  have "real_of_int (\<lfloor>xMx\<rfloor> + 1) \<le> real_of_int (2 ^ 32 - 1)" using assms(2) by simp
  then have "\<lfloor>xMx\<rfloor> + 1 \<le> 2 ^ 32 - 1" by (simp only: of_int_le_iff)
  then show ?thesis using f by (simp add: xTicksFor_def xMin_def Let_def)
qed

lemma xTicksFor_throws:
  assumes "0 \<le> xMx" "(2 ^ 32 - 1 :: real) < of_int \<lfloor>xMx\<rfloor> + 1"
  shows "xTicksFor xMx = Inl RangeError"
proof -
  have f: "0 \<le> \<lfloor>xMx\<rfloor>" using assms(1) by simp
  have "real_of_int (2 ^ 32 - 1) < real_of_int (\<lfloor>xMx\<rfloor> + 1)" using assms(2) by simp
  then have "2 ^ 32 - 1 < \<lfloor>xMx\<rfloor> + 1" by (simp only: of_int_less_iff)
  then show ?thesis using f by (simp add: xTicksFor_def xMin_def Let_def)
qed

lemma MetricChart_Chart:
  assumes "MetricChart buildNiceYTicks sz metricId accessor series = Some (Inr (Chart c))"
  shows "normalizedSeries accessor series \<noteq> []"
    and "chartSizeOf c = sz"
    and "xMax c = fold max (allXValues (normalizedSeries accessor series)) 0"
    and "yScale buildNiceYTicks metricId (allYValues (normalizedSeries accessor series))
           = Some \<lparr>scaleMin = yMin c, scaleMax = yMax c, ticks = yTicks c\<rparr>"
    and "xTicksFor (xMax c) = Inr (xTicks c)"
    and "seriesForRender c
           = map (renderRun sz (xMax c) (yMin c) (yMax c)) (normalizedSeries accessor series)"
    and "throughputSum c
           = throughputSumForRender sz metricId (xMax c) (yMin c) (yMax c)
               (normalizedSeries accessor series)"
proof -
  define ns where "ns = normalizedSeries accessor series"
  define xm where "xm = fold max (allXValues ns) 0"
  have ne: "ns \<noteq> []" using assms by (auto simp: MetricChart_def Let_def ns_def)
  obtain sc where sc: "yScale buildNiceYTicks metricId (allYValues ns) = Some sc"
    using assms ne
    by (cases "yScale buildNiceYTicks metricId (allYValues ns)")
       (auto simp: MetricChart_def Let_def ns_def[symmetric])
  obtain xt where xt: "xTicksFor xm = Inr xt"
    using assms ne sc
    by (cases "xTicksFor xm")
       (auto simp: MetricChart_def Let_def ns_def[symmetric] xm_def[symmetric])
  have c: "c = \<lparr>chartSizeOf = sz, xMax = xm, yMin = scaleMin sc, yMax = scaleMax sc,
      yTicks = ticks sc, xTicks = xt,
      seriesForRender = map (renderRun sz xm (scaleMin sc) (scaleMax sc)) ns,
      throughputSum = throughputSumForRender sz metricId xm (scaleMin sc) (scaleMax sc) ns\<rparr>"
    using assms ne sc xt
    by (simp add: MetricChart_def Let_def ns_def[symmetric] xm_def[symmetric])
  show "normalizedSeries accessor series \<noteq> []" using ne by (simp add: ns_def)
  show "chartSizeOf c = sz" by (simp add: c)
  show "xMax c = fold max (allXValues (normalizedSeries accessor series)) 0"
    by (simp add: c xm_def ns_def)
  show "yScale buildNiceYTicks metricId (allYValues (normalizedSeries accessor series))
           = Some \<lparr>scaleMin = yMin c, scaleMax = yMax c, ticks = yTicks c\<rparr>"
    using sc by (simp add: c ns_def)
  show "xTicksFor (xMax c) = Inr (xTicks c)" using xt by (simp add: c)
  show "seriesForRender c
           = map (renderRun sz (xMax c) (yMin c) (yMax c)) (normalizedSeries accessor series)"
    by (simp add: c ns_def)
  show "throughputSum c
           = throughputSumForRender sz metricId (xMax c) (yMin c) (yMax c)
               (normalizedSeries accessor series)"
    by (simp add: c ns_def)
qed

lemma MetricChart_returns:
  assumes "normalizedSeries accessor series \<noteq> []"
      and "yScale buildNiceYTicks metricId (allYValues (normalizedSeries accessor series)) = Some sc"
      and "of_int \<lfloor>fold max (allXValues (normalizedSeries accessor series)) 0\<rfloor> + 1
             \<le> (2 ^ 32 - 1 :: real)"
  shows "\<exists>c. MetricChart buildNiceYTicks sz metricId accessor series = Some (Inr (Chart c))
           \<and> yMin c = scaleMin sc \<and> yMax c = scaleMax sc \<and> yTicks c = ticks sc"
proof -
  have "0 \<le> fold max (allXValues (normalizedSeries accessor series)) 0"
    using fold_max_ge_all[of 0] by blast
  from xTicksFor_returns[OF this assms(3)] show ?thesis
    using assms(1,2) by (simp add: MetricChart_def Let_def)
qed

lemma MetricChart_throws:
  assumes "normalizedSeries accessor series \<noteq> []"
      and "yScale buildNiceYTicks metricId (allYValues (normalizedSeries accessor series)) = Some sc"
      and "(2 ^ 32 - 1 :: real)
             < of_int \<lfloor>fold max (allXValues (normalizedSeries accessor series)) 0\<rfloor> + 1"
  shows "MetricChart buildNiceYTicks sz metricId accessor series = Some (Inl RangeError)"
proof -
  have "0 \<le> fold max (allXValues (normalizedSeries accessor series)) 0"
    using fold_max_ge_all[of 0] by blast
  from xTicksFor_throws[OF this assms(3)] show ?thesis
    using assms(1,2) by (simp add: MetricChart_def Let_def)
qed





text \<open>The chart of one run with throughput 150 at second 0 and 60 at second 1.\<close>

lemma chart_of_one_run:
  "MetricChart buildNiceYTicks Default ''mbps'' megabitsPerSecond
       [\<lparr>runId = 1, shortLabel = ''cubic'', label = ''cubic'', clientSummary = ''cubic, 50ms'',
         color = ''#0d9488'',
         seriesData =
           [\<lparr>statId = 1, emulatedRunId = 1, snapshotIndex = Some (Num 0),
             elapsedSeconds = Some (Num 0), megabitsPerSecond = Some (Num 150),
             roundTripTimeMs = None, bottleneckQueuingDelayMs = None, inFlightPackets = None,
             congestionWindowBytes = None\<rparr>,
            \<lparr>statId = 2, emulatedRunId = 1, snapshotIndex = Some (Num 1),
             elapsedSeconds = Some (Num 1), megabitsPerSecond = Some (Num 60),
             roundTripTimeMs = None, bottleneckQueuingDelayMs = None, inFlightPackets = None,
             congestionWindowBytes = None\<rparr>]\<rparr>]
   = Some (Inr (Chart
       \<lparr>chartSizeOf = Default, xMax = 1, yMin = 0, yMax = 120, yTicks = [0, 40, 80, 120],
        xTicks = [0, 1],
        seriesForRender =
          [\<lparr>runId = 1, shortLabel = ''cubic'', label = ''cubic'',
            clientSummary = ''cubic, 50ms'', color = ''#0d9488'',
            seriesData =
              [\<lparr>statId = 1, emulatedRunId = 1, snapshotIndex = Some (Num 0),
                elapsedSeconds = Some (Num 0), megabitsPerSecond = Some (Num 150),
                roundTripTimeMs = None, bottleneckQueuingDelayMs = None, inFlightPackets = None,
                congestionWindowBytes = None\<rparr>,
               \<lparr>statId = 2, emulatedRunId = 1, snapshotIndex = Some (Num 1),
                elapsedSeconds = Some (Num 1), megabitsPerSecond = Some (Num 60),
                roundTripTimeMs = None, bottleneckQueuingDelayMs = None, inFlightPackets = None,
                congestionWindowBytes = None\<rparr>],
            svgPoints = [\<lparr>xValue = 0, yValue = 150, svgX = 56, svgY = 18\<rparr>,
                         \<lparr>xValue = 1, yValue = 60, svgX = 442, svgY = 93\<rparr>]\<rparr>],
        throughputSum = Some \<lparr>runId = - 1, shortLabel = ''sum Mbps'', label = ''sum Mbps'',
          clientSummary = ''sum Mbps'', color = ''#eab308'', seriesData = [],
          svgPoints = [\<lparr>xValue = 0, yValue = 150, svgX = 56, svgY = 18\<rparr>,
                       \<lparr>xValue = 1, yValue = 60, svgX = 442, svgY = 93\<rparr>]\<rparr>\<rparr>))"
proof -
  let ?data = "[\<lparr>statId = 1, emulatedRunId = 1, snapshotIndex = Some (Num 0),
             elapsedSeconds = Some (Num 0), megabitsPerSecond = Some (Num 150),
             roundTripTimeMs = None, bottleneckQueuingDelayMs = None, inFlightPackets = None,
             congestionWindowBytes = None\<rparr>,
            \<lparr>statId = 2, emulatedRunId = 1, snapshotIndex = Some (Num 1),
             elapsedSeconds = Some (Num 1), megabitsPerSecond = Some (Num 60),
             roundTripTimeMs = None, bottleneckQueuingDelayMs = None, inFlightPackets = None,
             congestionWindowBytes = None\<rparr>]"
  let ?series = "[\<lparr>runId = 1, shortLabel = ''cubic'', label = ''cubic'',
         clientSummary = ''cubic, 50ms'', color = ''#0d9488'', seriesData = ?data\<rparr>]"
  let ?pts = "[\<lparr>xValue = 0, yValue = 150, svgX = 56, svgY = 18\<rparr>,
               \<lparr>xValue = 1, yValue = 60, svgX = 442, svgY = 93\<rparr>]"
  have ns: "normalizedSeries megabitsPerSecond ?series =
      [\<lparr>runId = 1, shortLabel = ''cubic'', label = ''cubic'',
         clientSummary = ''cubic, 50ms'', color = ''#0d9488'', seriesData = ?data,
         points = [\<lparr>xValue = 0, yValue = 150\<rparr>, \<lparr>xValue = 1, yValue = 60\<rparr>]\<rparr>]"
    by (simp add: normalizedSeries_def normalizeRun_def normalizePoint_def enumerate_eq_zip upt_rec)
  have sm: "throughputSumPoints (normalizedSeries megabitsPerSecond ?series)
      = [\<lparr>xValue = 0, yValue = 150\<rparr>, \<lparr>xValue = 1, yValue = 60\<rparr>]"
    unfolding ns by (simp add: throughputSumPoints_def sumByX_def addToSum_def Let_def toFixed_3_samples)
  have pr: "map (projectPoint Default 1 0 120) [\<lparr>xValue = 0, yValue = 150\<rparr>, \<lparr>xValue = 1, yValue = 60\<rparr>]
      = ?pts"
    by (simp add: projectPoint_def Let_def xMin_def xDenominator_def yDenominator_def
          leftPadding_def plotWidth_def chartWidth_def rightPadding_def chartHeight_def
          bottomPadding_def plotHeight_def topPadding_def isExpanded_def)
  have ts: "throughputSumForRender Default ''mbps'' 1 0 120 (normalizedSeries megabitsPerSecond ?series)
      = Some \<lparr>runId = - 1, shortLabel = ''sum Mbps'', label = ''sum Mbps'',
         clientSummary = ''sum Mbps'', color = ''#eab308'', seriesData = [],
         svgPoints = ?pts\<rparr>"
    unfolding throughputSumForRender_def sm using pr
    by (simp add: THROUGHPUT_SUM_SERIES_ID_def)
  have xt: "xTicksFor 1 = Inr [0, 1]"
    by (simp add: xTicksFor_def xMin_def Let_def upt_rec)
  show ?thesis
    unfolding MetricChart_def Let_def ts[unfolded ns] ns
    using pr by (simp add: yScale_mbps renderRun_def ts[unfolded ns] allXValues_def xt)
qed

section \<open>Throughput axis\<close>

text \<open>
  C7. For the throughput metric the y-axis scale does not depend on the data or on the
  Scale Builder: it is the range from 0 to 120 with the ticks 0, 40, 80, 120. For every
  other metric the scale is what the Scale Builder returns for the range from 0 to a bound
  computed from the data, which is at least every observed y. The scale of a chart is the
  one just described, so a throughput chart has the fixed range and ticks; and a
  throughput chart is laid out whenever there are points and the x ticks fit an array.
\<close>

theorem throughput_axis_fixed:
  "yScale buildNiceYTicks ''mbps'' yValues
     = Some \<lparr>scaleMin = 0, scaleMax = 120, ticks = [0, 40, 80, 120]\<rparr>
   \<and> (metricId \<noteq> ''mbps'' \<longrightarrow>
         yScale buildNiceYTicks metricId (v # vs)
           = buildNiceYTicks (Num 0)
               (Num (max (fold max vs v + max ((fold max vs v - fold min vs v) * 0.12) 0.001) 0.001))
         \<and> (\<forall>y \<in> set (v # vs).
               y \<le> max (fold max vs v + max ((fold max vs v - fold min vs v) * 0.12) 0.001) 0.001))
   \<and> (MetricChart buildNiceYTicks sz metricId accessor series = Some (Inr (Chart c)) \<longrightarrow>
         yScale buildNiceYTicks metricId (allYValues (normalizedSeries accessor series))
           = Some \<lparr>scaleMin = yMin c, scaleMax = yMax c, ticks = yTicks c\<rparr>
         \<and> (metricId = ''mbps'' \<longrightarrow> yMin c = 0 \<and> yMax c = 120 \<and> yTicks c = [0, 40, 80, 120]))
   \<and> (normalizedSeries accessor series \<noteq> []
        \<and> of_int \<lfloor>fold max (allXValues (normalizedSeries accessor series)) 0\<rfloor> + 1
             \<le> (2 ^ 32 - 1 :: real) \<longrightarrow>
         (\<exists>c'. MetricChart buildNiceYTicks sz ''mbps'' accessor series = Some (Inr (Chart c'))
              \<and> yMin c' = 0 \<and> yMax c' = 120 \<and> yTicks c' = [0, 40, 80, 120]))"
proof (intro conjI impI)
  show "yScale buildNiceYTicks ''mbps'' yValues
     = Some \<lparr>scaleMin = 0, scaleMax = 120, ticks = [0, 40, 80, 120]\<rparr>"
    by (rule yScale_mbps)
next
  assume "metricId \<noteq> ''mbps''"
  then show "yScale buildNiceYTicks metricId (v # vs)
           = buildNiceYTicks (Num 0)
               (Num (max (fold max vs v + max ((fold max vs v - fold min vs v) * 0.12) 0.001) 0.001))"
    by (rule yScale_other)
next
  show "\<forall>y \<in> set (v # vs).
               y \<le> max (fold max vs v + max ((fold max vs v - fold min vs v) * 0.12) 0.001) 0.001"
  proof
    fix y assume "y \<in> set (v # vs)"
    then have "y \<le> fold max vs v" using fold_max_ge_all[of v vs] by auto
    moreover have "(0::real) < max ((fold max vs v - fold min vs v) * 0.12) 0.001"
      by (simp add: less_max_iff_disj)
    ultimately have "y \<le> fold max vs v + max ((fold max vs v - fold min vs v) * 0.12) 0.001"
      by linarith
    then show "y \<le> max (fold max vs v + max ((fold max vs v - fold min vs v) * 0.12) 0.001) 0.001"
      by (rule order_trans) (rule max.cobounded1)
  qed
next
  assume c: "MetricChart buildNiceYTicks sz metricId accessor series = Some (Inr (Chart c))"
  show y: "yScale buildNiceYTicks metricId (allYValues (normalizedSeries accessor series))
           = Some \<lparr>scaleMin = yMin c, scaleMax = yMax c, ticks = yTicks c\<rparr>"
    by (rule MetricChart_Chart(4)[OF c])
  assume "metricId = ''mbps''"
  then show "yMin c = 0" "yMax c = 120" "yTicks c = [0, 40, 80, 120]"
    using y by (simp_all add: yScale_mbps)
next
  assume a: "normalizedSeries accessor series \<noteq> []
        \<and> of_int \<lfloor>fold max (allXValues (normalizedSeries accessor series)) 0\<rfloor> + 1
             \<le> (2 ^ 32 - 1 :: real)"
  from MetricChart_returns[OF conjunct1[OF a] yScale_mbps conjunct2[OF a], of buildNiceYTicks sz]
  show "\<exists>c'. MetricChart buildNiceYTicks sz ''mbps'' accessor series = Some (Inr (Chart c'))
              \<and> yMin c' = 0 \<and> yMax c' = 120 \<and> yTicks c' = [0, 40, 80, 120]"
    by simp
qed


text \<open>
  The round-trip times 10 and 1000, with a Scale Builder that returns its bounds: the
  scale ends at 1118.8. And the throughput chart of the one run above.
\<close>

theorem throughput_axis_fixed_witness:
  "''rtt'' \<noteq> ''mbps''
   \<and> yScale (\<lambda>minValue maxValue.
         Some \<lparr>scaleMin = 0, scaleMax = (case maxValue of Num m \<Rightarrow> m | _ \<Rightarrow> 1), ticks = [0]\<rparr>)
       ''rtt'' [10, 1000]
     = Some \<lparr>scaleMin = 0, scaleMax = 11188 / 10, ticks = [0]\<rparr>
   \<and> (10::real) \<le> 11188 / 10 \<and> (1000::real) \<le> 11188 / 10
   \<and> (\<exists>c. MetricChart (\<lambda>minValue maxValue.
               Some \<lparr>scaleMin = 0, scaleMax = (case maxValue of Num m \<Rightarrow> m | _ \<Rightarrow> 1), ticks = [0]\<rparr>)
             Default ''mbps'' megabitsPerSecond
       [\<lparr>runId = 1, shortLabel = ''cubic'', label = ''cubic'', clientSummary = ''cubic, 50ms'',
         color = ''#0d9488'',
         seriesData =
           [\<lparr>statId = 1, emulatedRunId = 1, snapshotIndex = Some (Num 0),
             elapsedSeconds = Some (Num 0), megabitsPerSecond = Some (Num 150),
             roundTripTimeMs = None, bottleneckQueuingDelayMs = None, inFlightPackets = None,
             congestionWindowBytes = None\<rparr>,
            \<lparr>statId = 2, emulatedRunId = 1, snapshotIndex = Some (Num 1),
             elapsedSeconds = Some (Num 1), megabitsPerSecond = Some (Num 60),
             roundTripTimeMs = None, bottleneckQueuingDelayMs = None, inFlightPackets = None,
             congestionWindowBytes = None\<rparr>]\<rparr>] = Some (Inr (Chart c))
        \<and> yMin c = 0 \<and> yMax c = 120 \<and> yTicks c = [0, 40, 80, 120])"
proof -
  let ?b = "\<lambda>minValue maxValue.
         Some \<lparr>scaleMin = 0, scaleMax = (case maxValue of Num m \<Rightarrow> m | _ \<Rightarrow> 1), ticks = [0::real]\<rparr>"
  let ?series = "[\<lparr>runId = 1, shortLabel = ''cubic'', label = ''cubic'', clientSummary = ''cubic, 50ms'',
         color = ''#0d9488'',
         seriesData =
           [\<lparr>statId = 1, emulatedRunId = 1, snapshotIndex = Some (Num 0),
             elapsedSeconds = Some (Num 0), megabitsPerSecond = Some (Num 150),
             roundTripTimeMs = None, bottleneckQueuingDelayMs = None, inFlightPackets = None,
             congestionWindowBytes = None\<rparr>,
            \<lparr>statId = 2, emulatedRunId = 1, snapshotIndex = Some (Num 1),
             elapsedSeconds = Some (Num 1), megabitsPerSecond = Some (Num 60),
             roundTripTimeMs = None, bottleneckQueuingDelayMs = None, inFlightPackets = None,
             congestionWindowBytes = None\<rparr>]\<rparr>]"
  note c = chart_of_one_run[of ?b]
  have r: "''rtt'' \<noteq> ''mbps''" by simp
  have ne: "normalizedSeries megabitsPerSecond ?series \<noteq> []"
    by (rule MetricChart_Chart(1)[OF c])
  have "fold max (allXValues (normalizedSeries megabitsPerSecond ?series)) 0 = 1"
    using MetricChart_Chart(3)[OF c] by simp
  then have x: "of_int \<lfloor>fold max (allXValues (normalizedSeries megabitsPerSecond ?series)) 0\<rfloor> + 1
             \<le> (2 ^ 32 - 1 :: real)" by simp
  note t = throughput_axis_fixed[of ?b _ "''mbps''" _ _ Default megabitsPerSecond ?series]
  have a: "yScale ?b ''rtt'' [10, 1000] = Some \<lparr>scaleMin = 0, scaleMax = 11188 / 10, ticks = [0]\<rparr>"
    using throughput_axis_fixed[of ?b _ "''rtt''" 10 "[1000]"] r by simp
  have b: "(10::real) \<le> 11188 / 10 \<and> (1000::real) \<le> 11188 / 10" by simp
  have d: "\<exists>c. MetricChart ?b Default ''mbps'' megabitsPerSecond ?series = Some (Inr (Chart c))
        \<and> yMin c = 0 \<and> yMax c = 120 \<and> yTicks c = [0, 40, 80, 120]"
    using t ne x by blast
  show ?thesis using r a b d by blast
qed


section \<open>Coordinate Projector: clamping\<close>














section \<open>Hit-Testing and Slice Engine: the nearest point per series\<close>













section \<open>Hover and pin state: clearing and clicking\<close>

lemma click_pinned_noop:
  assumes "pinnedRunId s \<noteq> None" "isClick ev"
  shows "handleEvent c ev s = s"
  using assms by (cases ev) (simp_all add: pathClick_def markerClick_def legendClick_def)

lemma pin_kept:
  assumes "pinnedRunId s \<noteq> None" "ev \<noteq> DocumentPointerDown"
  shows "pinnedRunId (handleEvent c ev s) = pinnedRunId s"
proof (cases ev)
  case (PathMouseMove rs clientX el)
  then show ?thesis using assms
    by (simp add: pathMouseMove_def Let_def split: option.splits)
next
  case (SvgMouseMove clientX clientY el)
  then show ?thesis by (simp add: svgMouseMove_def split: sum.splits)
qed (use assms in \<open>simp_all add: pathMouseEnter_def pathMouseLeave_def pathClick_def
       markerMouseOver_def Let_def markerMouseLeave_def markerClick_def legendMouseEnter_def
       legendMouseLeave_def legendClick_def svgMouseLeave_def cardMouseLeave_def\<close>)

lemma pointer_down_clears:
  assumes "pinnedRunId s \<noteq> None"
  shows "handleEvent c DocumentPointerDown s =
           \<lparr>hoveredRunId = None, hoveredPoint = None, hoveredSlice = None,
            pinnedRunId = None, pinnedPoint = None\<rparr>"
  using assms by (cases s) (auto simp: documentPointerDown_def clearPinnedSelection_def)

lemma click_unpinned_pins:
  "pinnedRunId (handleEvent c (LegendClick rs)
      \<lparr>hoveredRunId = None, hoveredPoint = None, hoveredSlice = None,
       pinnedRunId = None, pinnedPoint = None\<rparr>) = Some (runId rs)"
  "pinnedRunId (handleEvent c (MarkerClick rs p)
      \<lparr>hoveredRunId = None, hoveredPoint = None, hoveredSlice = None,
       pinnedRunId = None, pinnedPoint = None\<rparr>) = Some (runId rs)"
  "pinnedRunId (handleEvent c (PathClick rs clientX el)
      \<lparr>hoveredRunId = None, hoveredPoint = None, hoveredSlice = None,
       pinnedRunId = None, pinnedPoint = None\<rparr>) = Some (runId rs)"
  by (simp_all add: legendClick_def markerClick_def pathClick_def Let_def split: option.splits)

text \<open>
  C6. While a series is pinned, a pointer-down on the document clears the pinned run, the
  pinned point, the hovered run, the hovered point and the hovered slice, and no other
  event changes the pinned run; a click handler of a series path, a marker or a legend
  chip that runs while the pin is set leaves the state as it is. The document listener
  runs on every pointer-down, on one inside the chart too, and a pointer click is a
  pointer-down followed by a click: so a click on a legend chip made while a series is
  pinned ends with the clicked run pinned, no point pinned and the slice cleared, and a
  click on a marker or a path ends with the clicked run pinned. Such a click is not
  without effect.
\<close>

theorem pointer_click_while_pinned:
  assumes "pinnedRunId s \<noteq> None"
  shows "handleEvent c DocumentPointerDown s =
           \<lparr>hoveredRunId = None, hoveredPoint = None, hoveredSlice = None,
            pinnedRunId = None, pinnedPoint = None\<rparr>
       \<and> (ev \<noteq> DocumentPointerDown \<longrightarrow> pinnedRunId (handleEvent c ev s) = pinnedRunId s)
       \<and> (isClick ev \<longrightarrow> handleEvent c ev s = s)
       \<and> fold (handleEvent c) [DocumentPointerDown, LegendClick rs] s =
           \<lparr>hoveredRunId = Some (runId rs), hoveredPoint = None, hoveredSlice = None,
            pinnedRunId = Some (runId rs), pinnedPoint = None\<rparr>
       \<and> pinnedRunId (fold (handleEvent c) [DocumentPointerDown, MarkerClick rs p] s)
           = Some (runId rs)
       \<and> pinnedRunId (fold (handleEvent c) [DocumentPointerDown, PathClick rs clientX el] s)
           = Some (runId rs)"
proof (intro conjI impI)
  show d: "handleEvent c DocumentPointerDown s =
           \<lparr>hoveredRunId = None, hoveredPoint = None, hoveredSlice = None,
            pinnedRunId = None, pinnedPoint = None\<rparr>"
    using assms by (rule pointer_down_clears)
  show "pinnedRunId (handleEvent c ev s) = pinnedRunId s" if "ev \<noteq> DocumentPointerDown"
    using assms that by (rule pin_kept)
  show "handleEvent c ev s = s" if "isClick ev"
    using assms that by (rule click_pinned_noop)
  show "fold (handleEvent c) [DocumentPointerDown, LegendClick rs] s =
           \<lparr>hoveredRunId = Some (runId rs), hoveredPoint = None, hoveredSlice = None,
            pinnedRunId = Some (runId rs), pinnedPoint = None\<rparr>"
    using d by (simp add: legendClick_def)
  show "pinnedRunId (fold (handleEvent c) [DocumentPointerDown, MarkerClick rs p] s)
           = Some (runId rs)"
    using click_unpinned_pins(2)[of c rs p] d by simp
  show "pinnedRunId (fold (handleEvent c) [DocumentPointerDown, PathClick rs clientX el] s)
           = Some (runId rs)"
    using click_unpinned_pins(3)[of c rs clientX el] d by simp
qed

text \<open>
  Run 1 is pinned from the legend; then the legend chip of run 2 is clicked with the
  pointer. The click handler alone would change nothing, but after the pointer-down that
  comes first it pins run 2.
\<close>

theorem pointer_click_while_pinned_witness:
  "pinnedRunId \<lparr>hoveredRunId = Some 1, hoveredPoint = None, hoveredSlice = None,
         pinnedRunId = Some 1, pinnedPoint = None\<rparr> \<noteq> None
   \<and> isClick (LegendClick \<lparr>runId = 2, shortLabel = ''bbr'', label = ''bbr'',
           clientSummary = ''bbr, 50ms'', color = ''#dc2626'', seriesData = [], svgPoints = []\<rparr>)
   \<and> handleEvent
        \<lparr>chartSizeOf = Default, xMax = 1, yMin = 0, yMax = 120, yTicks = [0, 40, 80, 120],
         xTicks = [0, 1], seriesForRender = [], throughputSum = None\<rparr>
        (LegendClick \<lparr>runId = 2, shortLabel = ''bbr'', label = ''bbr'',
           clientSummary = ''bbr, 50ms'', color = ''#dc2626'', seriesData = [], svgPoints = []\<rparr>)
        \<lparr>hoveredRunId = Some 1, hoveredPoint = None, hoveredSlice = None,
         pinnedRunId = Some 1, pinnedPoint = None\<rparr>
       = \<lparr>hoveredRunId = Some 1, hoveredPoint = None, hoveredSlice = None,
         pinnedRunId = Some 1, pinnedPoint = None\<rparr>
   \<and> fold (handleEvent
        \<lparr>chartSizeOf = Default, xMax = 1, yMin = 0, yMax = 120, yTicks = [0, 40, 80, 120],
         xTicks = [0, 1], seriesForRender = [], throughputSum = None\<rparr>)
        [DocumentPointerDown, LegendClick \<lparr>runId = 2, shortLabel = ''bbr'', label = ''bbr'',
           clientSummary = ''bbr, 50ms'', color = ''#dc2626'', seriesData = [], svgPoints = []\<rparr>]
        \<lparr>hoveredRunId = Some 1, hoveredPoint = None, hoveredSlice = None,
         pinnedRunId = Some 1, pinnedPoint = None\<rparr>
       = \<lparr>hoveredRunId = Some 2, hoveredPoint = None, hoveredSlice = None,
          pinnedRunId = Some 2, pinnedPoint = None\<rparr>
   \<and> fold (handleEvent
        \<lparr>chartSizeOf = Default, xMax = 1, yMin = 0, yMax = 120, yTicks = [0, 40, 80, 120],
         xTicks = [0, 1], seriesForRender = [], throughputSum = None\<rparr>)
        [DocumentPointerDown, LegendClick \<lparr>runId = 2, shortLabel = ''bbr'', label = ''bbr'',
           clientSummary = ''bbr, 50ms'', color = ''#dc2626'', seriesData = [], svgPoints = []\<rparr>]
        \<lparr>hoveredRunId = Some 1, hoveredPoint = None, hoveredSlice = None,
         pinnedRunId = Some 1, pinnedPoint = None\<rparr>
       \<noteq> \<lparr>hoveredRunId = Some 1, hoveredPoint = None, hoveredSlice = None,
         pinnedRunId = Some 1, pinnedPoint = None\<rparr>"
proof -
  let ?s = "\<lparr>hoveredRunId = Some 1, hoveredPoint = None, hoveredSlice = None,
         pinnedRunId = Some 1, pinnedPoint = None\<rparr>"
  have h: "pinnedRunId ?s \<noteq> None" by simp
  note t = pointer_click_while_pinned[OF h,
      of "\<lparr>chartSizeOf = Default, xMax = 1, yMin = 0, yMax = 120, yTicks = [0, 40, 80, 120],
         xTicks = [0, 1], seriesForRender = [], throughputSum = None\<rparr>"
         "LegendClick \<lparr>runId = 2, shortLabel = ''bbr'', label = ''bbr'',
           clientSummary = ''bbr, 50ms'', color = ''#dc2626'', seriesData = [], svgPoints = []\<rparr>"
         "\<lparr>runId = 2, shortLabel = ''bbr'', label = ''bbr'',
           clientSummary = ''bbr, 50ms'', color = ''#dc2626'', seriesData = [], svgPoints = []\<rparr>"
         "\<lparr>xValue = 0, yValue = 0, svgX = 0, svgY = 0\<rparr>" 0 None]
  have a: "handleEvent
        \<lparr>chartSizeOf = Default, xMax = 1, yMin = 0, yMax = 120, yTicks = [0, 40, 80, 120],
         xTicks = [0, 1], seriesForRender = [], throughputSum = None\<rparr>
        (LegendClick \<lparr>runId = 2, shortLabel = ''bbr'', label = ''bbr'',
           clientSummary = ''bbr, 50ms'', color = ''#dc2626'', seriesData = [], svgPoints = []\<rparr>) ?s = ?s"
    using conjunct1[OF conjunct2[OF conjunct2[OF t]]] by simp
  have b: "fold (handleEvent
        \<lparr>chartSizeOf = Default, xMax = 1, yMin = 0, yMax = 120, yTicks = [0, 40, 80, 120],
         xTicks = [0, 1], seriesForRender = [], throughputSum = None\<rparr>)
        [DocumentPointerDown, LegendClick \<lparr>runId = 2, shortLabel = ''bbr'', label = ''bbr'',
           clientSummary = ''bbr, 50ms'', color = ''#dc2626'', seriesData = [], svgPoints = []\<rparr>] ?s
       = \<lparr>hoveredRunId = Some 2, hoveredPoint = None, hoveredSlice = None,
          pinnedRunId = Some 2, pinnedPoint = None\<rparr>"
    using conjunct1[OF conjunct2[OF conjunct2[OF conjunct2[OF t]]]] by simp
  show ?thesis
    unfolding a b by simp
qed

end
